theory Spec2Isabelle
  imports Complex_Main "HOL-Library.Sublist"
begin

section \<open>The UEBA risk-scoring engine of \<^verbatim>\<open>ueba_system.py\<close>\<close>

text \<open>
  The engine is the class \<^verbatim>\<open>UEBASystem\<close>. Its state is the table
  \<^verbatim>\<open>login_attempts\<close> of the SQLite file, the attribute \<^verbatim>\<open>ml_model\<close>, the module
  flag \<^verbatim>\<open>ML_AVAILABLE\<close> and what it prints. Conventions of the embedding:

  \<^item> A Python float is the real number it stands for, and the arithmetic of the blend
    (\<^verbatim>\<open>risk_score * 0.7 + ml_risk * 0.3\<close>, \<^verbatim>\<open>(-anomaly_score) * 100\<close> and the two
    \<^verbatim>\<open>round(_, 2)\<close> after them) rounds every result to binary64 as IEEE 754 does
    (\<open>to_double\<close>). The rule-based total is a sum of seven products whose exact value
    is a whole number of quarters, at most 83.25 (lemmas \<open>rule_score_exact\<close> and
    \<open>weighted_total_range\<close>); the float sum is within 1e-12 of it in any order of
    summation, so \<^verbatim>\<open>round(total, 2)\<close> returns exactly that value, which is a
    binary64 number, and the total is written as the exact sum.
  \<^item> \<^verbatim>\<open>time.time()\<close> is read four times during one \<^verbatim>\<open>log_attempt\<close>; each reading is
    an input of its own (record \<open>clock\<close>), and nothing is assumed about their order.
  \<^item> The isolation forest of scikit-learn is outside the repository. It is built with
    a fixed \<^verbatim>\<open>random_state\<close>, so the trained model is a function of the training
    matrix: the model is represented by that matrix, and \<^verbatim>\<open>score_samples\<close> is a
    parameter \<open>sc\<close> taking the matrix and one feature row.
  \<^item> The table is a list of rows in insertion order.
\<close>

subsection \<open>Rows, parameters, state\<close>

record login_attempt =
  attempt_id :: nat
  username :: string
  step :: int
  device_id :: string
  network_operator :: string
  latency :: int
  fingerprint :: string
  ip_address :: string
  user_agent :: string
  timestamp :: int
  success :: bool
  risk_score :: real

text \<open>
  \<^verbatim>\<open>params\<close> is a dict read only through \<^verbatim>\<open>params.get\<close> (and once through
  \<^verbatim>\<open>params['fingerprint']\<close>, behind a test that the key is there). The keys the code
  reads are the fields; \<open>None\<close> is a key that is missing.
\<close>

record params =
  param_device_id :: "string option"
  param_network_operator :: "string option"
  param_latency :: "int option"
  param_fingerprint :: "string option"
  param_ip_address :: "string option"
  param_user_agent :: "string option"
  param_step :: "int option"

text \<open>\<^verbatim>\<open>params.get(key, default)\<close>.\<close>

definition dict_get :: "'a option \<Rightarrow> 'a \<Rightarrow> 'a" where
  "dict_get v d = (case v of None \<Rightarrow> d | Some x \<Rightarrow> x)"

text \<open>The lines the engine prints about training.\<close>

datatype message = Retraining | NotEnoughData | Trained nat

record ueba_system =
  ml_available :: bool
  ml_model :: "real list list option"
  login_attempts :: "login_attempt list"
  stdout :: "message list"

text \<open>The four readings of the clock during one \<^verbatim>\<open>log_attempt\<close>, in call order.\<close>

record clock =
  t_rule :: int
  t_ml :: int
  t_ml_rule :: int
  t_insert :: int

subsection \<open>Rounding and strings\<close>

text \<open>
  \<^verbatim>\<open>round(x, 2)\<close>: to the nearest hundredth, a tie going to the even neighbour.
\<close>

definition round_half_even :: "real \<Rightarrow> int" where
  "round_half_even x =
     (let f = \<lfloor>x\<rfloor>; d = x - of_int f
      in if d < 1 / 2 then f
         else if 1 / 2 < d then f + 1
         else if even f then f else f + 1)"

definition py_round2 :: "real \<Rightarrow> real" where
  "py_round2 x = of_int (round_half_even (x * 100)) / 100"

text \<open>
  A Python float is an IEEE binary64 number, written here as the real number it
  stands for. An operation on floats returns the exact result rounded to the nearest
  binary64 number, a tie going to the even mantissa: \<open>to_double\<close>. A number \<open>x\<close>
  with \<open>2 ^ 52 * 2 powi e \<le> \<bar>x\<bar> < 2 ^ 53 * 2 powi e\<close> is rounded to a multiple of
  \<open>2 powi e\<close>; the exponents of the normal numbers are -1074 to 971. Below them
  (the subnormal numbers) the result is a multiple of \<open>2 powi (-1074)\<close>. Above
  them IEEE returns an infinity, which has no real value: there \<open>to_double\<close> leaves
  the number as it is. The only operation of the engine that can get that far is the
  product \<^verbatim>\<open>(-anomaly_score) * 100\<close>, whose result is cut to [0, 100] at once, to the
  same value for the number and for the infinity.
\<close>

definition in_binade :: "real \<Rightarrow> int \<Rightarrow> bool" where
  "in_binade x e = (2 ^ 52 * 2 powi e \<le> \<bar>x\<bar> \<and> \<bar>x\<bar> < 2 ^ 53 * 2 powi e)"

definition double_exponents :: "int list" where
  "double_exponents = [- 1074..971]"

definition ulp_exponent :: "real \<Rightarrow> int option" where
  "ulp_exponent x = find (in_binade x) double_exponents"

definition to_double :: "real \<Rightarrow> real" where
  "to_double x =
     (case ulp_exponent x of
        Some e \<Rightarrow> of_int (round_half_even (x / 2 powi e)) * 2 powi e
      | None \<Rightarrow>
          if \<bar>x\<bar> < 1
          then of_int (round_half_even (x / 2 powi (- 1074))) * 2 powi (- 1074)
          else x)"

text \<open>\<^verbatim>\<open>a * b\<close> and \<^verbatim>\<open>a + b\<close> on floats.\<close>

definition double_mul :: "real \<Rightarrow> real \<Rightarrow> real" where
  "double_mul a b = to_double (a * b)"

definition double_add :: "real \<Rightarrow> real \<Rightarrow> real" where
  "double_add a b = to_double (a + b)"

text \<open>
  \<^verbatim>\<open>round(x, 2)\<close> of a float \<open>x\<close>: CPython rounds the exact value of \<open>x\<close> to
  two decimal places, a tie going to the even digit, and returns the float nearest to
  that decimal number.
\<close>

definition round2_double :: "real \<Rightarrow> real" where
  "round2_double x = to_double (py_round2 x)"

text \<open>
  \<^verbatim>\<open>str.upper()\<close> and the substring test \<^verbatim>\<open>needle in s\<close>, for device ids made
  of ASCII characters. Python's \<^verbatim>\<open>upper\<close> also maps letters outside ASCII, a few of
  them to ASCII letters; a \<open>char\<close> above 127 stands for no such letter here and is
  left as it is.
\<close>

definition upper_char :: "char \<Rightarrow> char" where
  "upper_char c =
     (let n = (of_char c :: nat)
      in if 97 \<le> n \<and> n \<le> 122 then char_of (n - 32) else c)"

definition upper :: "string \<Rightarrow> string" where
  "upper s = map upper_char s"

fun contains :: "string \<Rightarrow> string \<Rightarrow> bool" where
  "contains needle [] = (needle = [])"
| "contains needle (c # cs) = (prefix needle (c # cs) \<or> contains needle cs)"

subsection \<open>The queries on \<^verbatim>\<open>login_attempts\<close>\<close>

text \<open>\<^verbatim>\<open>WHERE username = ? AND timestamp > ?\<close>\<close>

definition user_since :: "login_attempt list \<Rightarrow> string \<Rightarrow> int \<Rightarrow> login_attempt list" where
  "user_since tbl u since = filter (\<lambda>e. username e = u \<and> since < timestamp e) tbl"

text \<open>\<^verbatim>\<open>SELECT COUNT(*) ... WHERE username = ? AND timestamp > ?\<close>\<close>

definition count_since :: "login_attempt list \<Rightarrow> string \<Rightarrow> int \<Rightarrow> int" where
  "count_since tbl u since = int (length (user_since tbl u since))"

text \<open>\<^verbatim>\<open>SELECT COUNT(DISTINCT device_id) ... WHERE username = ? AND timestamp > ?\<close>\<close>

definition distinct_devices_since :: "login_attempt list \<Rightarrow> string \<Rightarrow> int \<Rightarrow> int" where
  "distinct_devices_since tbl u since =
     int (length (remdups (map device_id (user_since tbl u since))))"

text \<open>The same over \<^verbatim>\<open>network_operator\<close>, with \<^verbatim>\<open>AND network_operator != ''\<close>.\<close>

definition distinct_networks_since :: "login_attempt list \<Rightarrow> string \<Rightarrow> int \<Rightarrow> int" where
  "distinct_networks_since tbl u since =
     int (length (remdups (map network_operator
       (filter (\<lambda>e. network_operator e \<noteq> []) (user_since tbl u since)))))"

text \<open>
  \<^verbatim>\<open>SELECT AVG(latency) ... WHERE username = ? AND latency > 0\<close>: \<open>None\<close> is SQL's
  NULL, the average of no row. The average is the exact quotient; SQLite returns the
  binary64 number next to it, which decides the comparison with 200 in
  \<^verbatim>\<open>calculate_risk_score\<close> the same way as long as the sum of the latencies stays
  below \<open>2 ^ 53\<close>.
\<close>

definition positive_latencies :: "login_attempt list \<Rightarrow> string \<Rightarrow> int list" where
  "positive_latencies tbl u =
     map latency (filter (\<lambda>e. username e = u \<and> 0 < latency e) tbl)"

definition avg_latency_query :: "login_attempt list \<Rightarrow> string \<Rightarrow> real option" where
  "avg_latency_query tbl u =
     (let ls = positive_latencies tbl u
      in if ls = [] then None
         else Some (real_of_int (sum_list ls) / real (length ls)))"

text \<open>
  \<^verbatim>\<open>SELECT timestamp ... WHERE username = ? ORDER BY timestamp DESC LIMIT 2\<close>
\<close>

definition last_two_timestamps :: "login_attempt list \<Rightarrow> string \<Rightarrow> int list" where
  "last_two_timestamps tbl u =
     take 2 (rev (sort (map timestamp (filter (\<lambda>e. username e = u) tbl))))"

text \<open>
  \<^verbatim>\<open>ORDER BY timestamp DESC LIMIT 1\<close>: a row of the greatest timestamp. Among rows
  of equal timestamp SQLite returns the one it scanned first, the one inserted first.
\<close>

fun newest :: "login_attempt list \<Rightarrow> login_attempt option" where
  "newest [] = None"
| "newest (e # es) =
     (case newest es of
        None \<Rightarrow> Some e
      | Some m \<Rightarrow> if timestamp e < timestamp m then Some m else Some e)"

text \<open>
  \<^verbatim>\<open>SELECT fingerprint ... WHERE username = ? AND fingerprint != ''
  ORDER BY timestamp DESC LIMIT 1\<close>
\<close>

definition last_fingerprint :: "login_attempt list \<Rightarrow> string \<Rightarrow> string option" where
  "last_fingerprint tbl u =
     map_option fingerprint
       (newest (filter (\<lambda>e. username e = u \<and> fingerprint e \<noteq> []) tbl))"

subsection \<open>\<^verbatim>\<open>calculate_risk_score\<close>: the seven signals and their weighted total\<close>

definition velocity_signal :: "login_attempt list \<Rightarrow> int \<Rightarrow> string \<Rightarrow> real" where
  "velocity_signal tbl now u =
     (let attempts_5min = count_since tbl u (now - 300000)
      in if 10 < attempts_5min then 95
         else if 5 < attempts_5min then 70
         else if 3 < attempts_5min then 40
         else 0)"

definition device_switching_signal :: "login_attempt list \<Rightarrow> int \<Rightarrow> string \<Rightarrow> real" where
  "device_switching_signal tbl now u =
     (let devices_30min = distinct_devices_since tbl u (now - 1800000)
      in if 5 < devices_30min then 90
         else if 3 < devices_30min then 60
         else if 1 < devices_30min then 30
         else 0)"

definition network_switching_signal :: "login_attempt list \<Rightarrow> int \<Rightarrow> string \<Rightarrow> real" where
  "network_switching_signal tbl now u =
     (let networks_30min = distinct_networks_since tbl u (now - 1800000)
      in if 3 < networks_30min then 85
         else if 1 < networks_30min then 50
         else 0)"

text \<open>
  \<^verbatim>\<open>avg_latency = c.fetchone()[0] or 150\<close>: 150 for NULL and for a falsy 0.0.
\<close>

definition latency_anomaly_signal :: "login_attempt list \<Rightarrow> string \<Rightarrow> params \<Rightarrow> real" where
  "latency_anomaly_signal tbl u p =
     (let avg_latency = (case avg_latency_query tbl u of
                           None \<Rightarrow> 150
                         | Some a \<Rightarrow> if a = 0 then 150 else a);
          current_latency = real_of_int (dict_get (param_latency p) 150)
      in if current_latency < 50 then 70
         else if 200 < \<bar>current_latency - avg_latency\<bar> then 50
         else 0)"

definition timing_pattern_signal :: "login_attempt list \<Rightarrow> string \<Rightarrow> real" where
  "timing_pattern_signal tbl u =
     (case last_two_timestamps tbl u of
        [t0, t1] \<Rightarrow>
          (let time_diff = t0 - t1
           in if time_diff < 1000 then 80
              else if time_diff < 5000 then 50
              else 0)
      | _ \<Rightarrow> 0)"

text \<open>
  \<^verbatim>\<open>if last_fp and params.get('fingerprint')\<close>: a row was found, and the current
  fingerprint is present and not the empty string.
\<close>

definition fingerprint_change_signal :: "login_attempt list \<Rightarrow> string \<Rightarrow> params \<Rightarrow> real" where
  "fingerprint_change_signal tbl u p =
     (case last_fingerprint tbl u of
        None \<Rightarrow> 0
      | Some last_fp \<Rightarrow>
          (case param_fingerprint p of
             None \<Rightarrow> 0
           | Some fp \<Rightarrow>
               if fp = [] then 0
               else if last_fp \<noteq> fp then 60
               else 0))"

definition device_spoofing_signal :: "params \<Rightarrow> real" where
  "device_spoofing_signal p =
     (let device_id = upper (dict_get (param_device_id p) [])
      in if contains ''BYPASS'' device_id \<or> contains ''TEST'' device_id
            \<or> contains ''EMULATOR'' device_id
         then 85 else 0)"

text \<open>The dict \<^verbatim>\<open>scores\<close>, in the order the code fills it.\<close>

definition signal_scores ::
  "login_attempt list \<Rightarrow> int \<Rightarrow> string \<Rightarrow> params \<Rightarrow> (string \<times> real) list" where
  "signal_scores tbl now u p =
     [(''velocity'', velocity_signal tbl now u),
      (''device_switching'', device_switching_signal tbl now u),
      (''network_switching'', network_switching_signal tbl now u),
      (''latency_anomaly'', latency_anomaly_signal tbl u p),
      (''timing_pattern'', timing_pattern_signal tbl u),
      (''fingerprint_change'', fingerprint_change_signal tbl u p),
      (''device_spoofing'', device_spoofing_signal p)]"

definition weights :: "(string \<times> real) list" where
  "weights =
     [(''velocity'', 0.25),
      (''device_switching'', 0.20),
      (''network_switching'', 0.15),
      (''latency_anomaly'', 0.15),
      (''timing_pattern'', 0.10),
      (''fingerprint_change'', 0.10),
      (''device_spoofing'', 0.05)]"

text \<open>
  \<^verbatim>\<open>weights[k]\<close> for a key \<open>k\<close> of \<^verbatim>\<open>scores\<close>. The keys of \<^verbatim>\<open>scores\<close> are the
  keys of \<^verbatim>\<open>weights\<close> (lemma \<open>signal_scores_keys\<close>), so the KeyError of a missing key
  cannot happen; the value given to it here is never used.
\<close>

definition weight_of :: "string \<Rightarrow> real" where
  "weight_of k = (case map_of weights k of Some w \<Rightarrow> w | None \<Rightarrow> 0)"

text \<open>\<^verbatim>\<open>sum(scores[k] * weights[k] for k in scores)\<close>\<close>

definition weighted_total :: "(string \<times> real) list \<Rightarrow> real" where
  "weighted_total scores = sum_list (map (\<lambda>(k, v). v * weight_of k) scores)"

definition calculate_risk_score ::
  "login_attempt list \<Rightarrow> int \<Rightarrow> string \<Rightarrow> params \<Rightarrow> real \<times> (string \<times> real) list" where
  "calculate_risk_score tbl now u p =
     (let scores = signal_scores tbl now u p
      in (py_round2 (weighted_total scores), scores))"

subsection \<open>The anomaly model: \<^verbatim>\<open>train_ml_model\<close> and \<^verbatim>\<open>get_ml_risk_score\<close>\<close>

text \<open>
  One row of the training query, for the row \<open>l1\<close> of the table: the two subqueries
  count the rows of the same user whose timestamp is greater than \<open>l1\<close>'s minus the
  window, with no upper bound.
\<close>

definition training_row :: "login_attempt list \<Rightarrow> login_attempt \<Rightarrow> real list" where
  "training_row tbl l1 =
     [real_of_int (latency l1),
      risk_score l1,
      real_of_int (step l1),
      real_of_int (count_since tbl (username l1) (timestamp l1 - 300000)),
      real_of_int (distinct_devices_since tbl (username l1) (timestamp l1 - 1800000))]"

definition training_data :: "login_attempt list \<Rightarrow> real list list" where
  "training_data tbl = map (training_row tbl) (filter (\<lambda>e. 0 < latency e) tbl)"

definition train_ml_model :: "ueba_system \<Rightarrow> ueba_system" where
  "train_ml_model s =
     (if \<not> ml_available s then s
      else
        (let data = training_data (login_attempts s)
         in if length data < 10
            then s\<lparr>stdout := stdout s @ [NotEnoughData]\<rparr>
            else s\<lparr>ml_model := Some data,
                   stdout := stdout s @ [Trained (length data)]\<rparr>))"

text \<open>The feature row \<^verbatim>\<open>get_ml_risk_score\<close> builds for the attempt being scored.\<close>

definition ml_features ::
  "login_attempt list \<Rightarrow> int \<Rightarrow> int \<Rightarrow> string \<Rightarrow> params \<Rightarrow> real list" where
  "ml_features tbl now now_rule u p =
     (let velocity = count_since tbl u (now - 300000);
          device_count = distinct_devices_since tbl u (now - 1800000)
      in [real_of_int (dict_get (param_latency p) 150),
          fst (calculate_risk_score tbl now_rule u p),
          real_of_int (dict_get (param_step p) 1),
          real_of_int velocity,
          real_of_int device_count])"

text \<open>
  \<^verbatim>\<open>score_samples\<close> returns a float: whatever number the parameter \<open>sc\<close> gives
  is taken as the float nearest to it.
\<close>

definition get_ml_risk_score ::
  "(real list list \<Rightarrow> real list \<Rightarrow> real) \<Rightarrow> ueba_system \<Rightarrow> clock \<Rightarrow> string \<Rightarrow> params \<Rightarrow> real"
  where
  "get_ml_risk_score sc s clk u p =
     (case ml_model s of
        None \<Rightarrow> 0
      | Some model \<Rightarrow>
          if \<not> ml_available s then 0
          else
            (let features = ml_features (login_attempts s) (t_ml clk) (t_ml_rule clk) u p;
                 anomaly_score = to_double (sc model features);
                 ml_risk = max 0 (min 100 (double_mul (- anomaly_score) 100))
             in round2_double ml_risk))"

subsection \<open>\<^verbatim>\<open>log_attempt\<close>\<close>

text \<open>
  The row \<^verbatim>\<open>INSERT\<close> writes. The id is the table's AUTOINCREMENT: one more than
  the greatest id in it.
\<close>

definition new_row ::
  "login_attempt list \<Rightarrow> int \<Rightarrow> string \<Rightarrow> int \<Rightarrow> params \<Rightarrow> bool \<Rightarrow> real \<Rightarrow> login_attempt" where
  "new_row tbl now u st p ok score =
     \<lparr>attempt_id = fold max (map attempt_id tbl) 0 + 1,
      username = u,
      step = st,
      device_id = dict_get (param_device_id p) [],
      network_operator = dict_get (param_network_operator p) [],
      latency = dict_get (param_latency p) 0,
      fingerprint = dict_get (param_fingerprint p) [],
      ip_address = dict_get (param_ip_address p) [],
      user_agent = dict_get (param_user_agent p) [],
      timestamp = now,
      success = ok,
      risk_score = score\<rparr>"

text \<open>
  The score and the breakdown \<^verbatim>\<open>log_attempt\<close> returns: the rule-based pair, or,
  with a model, the blend and the breakdown with the key \<^verbatim>\<open>ml_anomaly\<close> added.
\<close>

definition scored ::
  "(real list list \<Rightarrow> real list \<Rightarrow> real) \<Rightarrow> clock \<Rightarrow> ueba_system \<Rightarrow> string \<Rightarrow> params
     \<Rightarrow> real \<times> (string \<times> real) list" where
  "scored sc clk s u p =
     (let (risk_score, breakdown) = calculate_risk_score (login_attempts s) (t_rule clk) u p
      in if ml_available s \<and> ml_model s \<noteq> None
         then
           (let ml_risk = get_ml_risk_score sc s clk u p;
                combined_risk =
                  double_add (double_mul risk_score (to_double 0.7))
                    (double_mul ml_risk (to_double 0.3))
            in (round2_double combined_risk, breakdown @ [(''ml_anomaly'', ml_risk)]))
         else (risk_score, breakdown))"

definition log_attempt ::
  "(real list list \<Rightarrow> real list \<Rightarrow> real) \<Rightarrow> clock \<Rightarrow> ueba_system \<Rightarrow> string \<Rightarrow> int \<Rightarrow> params
     \<Rightarrow> bool \<Rightarrow> ueba_system \<times> real \<times> (string \<times> real) list" where
  "log_attempt sc clk s u st p ok =
     (let (risk_score, breakdown) = scored sc clk s u p;
          s1 = s\<lparr>login_attempts :=
                  login_attempts s
                    @ [new_row (login_attempts s) (t_insert clk) u st p ok risk_score]\<rparr>;
          total = length (login_attempts s1);
          s2 = (if ml_available s1 \<and> total mod 50 = 0 \<and> 0 < total
                then train_ml_model (s1\<lparr>stdout := stdout s1 @ [Retraining]\<rparr>)
                else s1)
      in (s2, risk_score, breakdown))"

text \<open>
  The call as a whole, with its exception. \<^verbatim>\<open>log_attempt\<close> has no \<^verbatim>\<open>raise\<close> of
  its own, but the \<^verbatim>\<open>sqlite3\<close> module binds a Python int to SQLite's INTEGER, a
  signed 64-bit number, and raises OverflowError for an int outside it. The two ints
  the INSERT binds from the caller are the step and the latency (0 when the key is
  missing); with one of them out of range the call ends in an exception (the
  OverflowError of the INSERT, unless turning the same latency into a float has failed
  before it), and nothing has been written, trained or printed. Otherwise the call
  returns what \<open>log_attempt\<close> above computes. \<^verbatim>\<open>score_samples\<close> is taken to return
  a number for every feature row.
\<close>

datatype error = IntegerOutOfRange

definition sqlite_integer :: "int \<Rightarrow> bool" where
  "sqlite_integer n = (- (2 ^ 63) \<le> n \<and> n < 2 ^ 63)"

definition log_attempt_call ::
  "(real list list \<Rightarrow> real list \<Rightarrow> real) \<Rightarrow> clock \<Rightarrow> ueba_system \<Rightarrow> string \<Rightarrow> int \<Rightarrow> params
     \<Rightarrow> bool \<Rightarrow> error + ueba_system \<times> real \<times> (string \<times> real) list" where
  "log_attempt_call sc clk s u st p ok =
     (if sqlite_integer st \<and> sqlite_integer (dict_get (param_latency p) 0)
      then Inr (log_attempt sc clk s u st p ok)
      else Inl IntegerOutOfRange)"

subsection \<open>\<^verbatim>\<open>__init__\<close> and \<^verbatim>\<open>check_abandonment\<close>\<close>

text \<open>
  The constructor over a database file that holds the table \<open>tbl\<close> already (empty on
  a first run). The table \<^verbatim>\<open>users\<close> it fills is read by no scoring function and is
  left out.
\<close>

definition ueba_init :: "bool \<Rightarrow> login_attempt list \<Rightarrow> ueba_system" where
  "ueba_init avail tbl =
     (let s = \<lparr>ml_available = avail, ml_model = None, login_attempts = tbl, stdout = []\<rparr>
      in if avail then train_ml_model s else s)"

text \<open>
  \<^verbatim>\<open>SELECT COUNT(*) ... WHERE username = ? AND timestamp > ? AND step < 3 AND success = 0\<close>
\<close>

definition abandonment_query :: "login_attempt list \<Rightarrow> int \<Rightarrow> string \<Rightarrow> int" where
  "abandonment_query tbl now u =
     int (length (filter (\<lambda>e. username e = u \<and> now - 3600000 < timestamp e
                               \<and> step e < 3 \<and> \<not> success e) tbl))"

definition check_abandonment :: "login_attempt list \<Rightarrow> int \<Rightarrow> string \<Rightarrow> int \<Rightarrow> int" where
  "check_abandonment tbl now u last_step =
     (let abandonment_count = abandonment_query tbl now u;
          base_risk = (if last_step = 1 then 12 else if last_step = 2 then 18 else 0)
      in if 5 < abandonment_count then base_risk + 15
         else if 3 < abandonment_count then base_risk + 10
         else if 1 < abandonment_count then base_risk + 6
         else base_risk)"


subsection \<open>Concrete inputs\<close>

text \<open>
  Inputs on which the functions above are run further down: four clock readings, a
  \<^verbatim>\<open>params\<close> dict with no key, the dict the simulator builds when every prompt is
  answered with Enter, the same dict with the simulator's suggested device
  \<open>BYPASS_TEST\<close> and latency 500, a stored row of another user, and a stand-in for
  \<^verbatim>\<open>score_samples\<close> that answers -0.5 for every row.
\<close>

definition clock0 :: clock where
  "clock0 = \<lparr>t_rule = 1000000, t_ml = 1000001, t_ml_rule = 1000002, t_insert = 1000003\<rparr>"

definition no_params :: params where
  "no_params =
     \<lparr>param_device_id = None, param_network_operator = None, param_latency = None,
      param_fingerprint = None, param_ip_address = None, param_user_agent = None,
      param_step = None\<rparr>"

definition default_params :: params where
  "default_params =
     \<lparr>param_device_id = Some ''DEVICE_DEFAULT'', param_network_operator = Some ''405854'',
      param_latency = Some 150, param_fingerprint = Some ''FP_DEFAULT'',
      param_ip_address = Some ''192.168.1.1'', param_user_agent = Some ''Android/12'',
      param_step = None\<rparr>"


definition seed_row :: login_attempt where
  "seed_row =
     \<lparr>attempt_id = 1, username = ''user2'', step = 1, device_id = ''DEVICE_DEFAULT'',
      network_operator = ''405854'', latency = 120, fingerprint = ''FP_DEFAULT'',
      ip_address = ''192.168.1.1'', user_agent = ''Android/12'', timestamp = 0,
      success = True, risk_score = 0\<rparr>"

text \<open>
  Rows of \<open>user1\<close> and of another user, read at the time 10000000: an abandoned row
  older than an hour, a recent successful row, a recent failed row of step 3, a recent
  abandoned row of the other user, and two recent abandoned rows of \<open>user1\<close>.
\<close>

definition abandonment_rows :: "login_attempt list" where
  "abandonment_rows =
     [seed_row\<lparr>username := ''user1'', success := False\<rparr>,
      seed_row\<lparr>username := ''user1'', timestamp := 9999000\<rparr>,
      seed_row\<lparr>username := ''user1'', step := 3, success := False, timestamp := 9999000\<rparr>,
      seed_row\<lparr>success := False, timestamp := 9999000\<rparr>,
      seed_row\<lparr>username := ''user1'', success := False, timestamp := 9999000\<rparr>,
      seed_row\<lparr>username := ''user1'', step := 2, success := False, timestamp := 9999500\<rparr>]"

definition const_scorer :: "real list list \<Rightarrow> real list \<Rightarrow> real" where
  "const_scorer model features = - (1 / 2)"

section \<open>Basic facts\<close>

lemma signal_scores_keys: "map fst (signal_scores tbl now u p) = map fst weights"
  by (simp add: signal_scores_def weights_def)

subsection \<open>Rounding\<close>

lemma round_half_even_lower: "\<lfloor>x\<rfloor> \<le> round_half_even x"
  by (simp add: round_half_even_def Let_def)

lemma round_half_even_upper: "round_half_even x \<le> \<lceil>x\<rceil>"
proof -
  have "x \<noteq> of_int \<lfloor>x\<rfloor> \<Longrightarrow> \<lceil>x\<rceil> = \<lfloor>x\<rfloor> + 1"
    by (simp add: ceiling_altdef)
  moreover have "x = of_int \<lfloor>x\<rfloor> \<Longrightarrow> round_half_even x = \<lfloor>x\<rfloor>"
    by (simp add: round_half_even_def Let_def)
  moreover have "round_half_even x \<le> \<lfloor>x\<rfloor> + 1"
    by (simp add: round_half_even_def Let_def)
  ultimately show ?thesis
    by (cases "x = of_int \<lfloor>x\<rfloor>") (simp_all add: ceiling_altdef)
qed

lemma py_round2_nonneg: "0 \<le> x \<Longrightarrow> 0 \<le> py_round2 x"
proof -
  assume "0 \<le> x"
  then have "0 \<le> \<lfloor>x * 100\<rfloor>" by simp
  with round_half_even_lower [of "x * 100"] have "0 \<le> round_half_even (x * 100)" by linarith
  then show ?thesis by (simp add: py_round2_def)
qed

lemma py_round2_le_100: "x \<le> 100 \<Longrightarrow> py_round2 x \<le> 100"
proof -
  assume "x \<le> 100"
  then have "x * 100 \<le> of_int 10000" by simp
  then have "\<lceil>x * 100\<rceil> \<le> 10000" by (simp only: ceiling_le_iff)
  with round_half_even_upper [of "x * 100"] have "round_half_even (x * 100) \<le> 10000" by linarith
  then have "real_of_int (round_half_even (x * 100)) \<le> 10000" by linarith
  then show ?thesis by (simp add: py_round2_def)
qed

lemma round_half_even_of_int: "round_half_even (of_int k) = k"
  by (simp add: round_half_even_def)

lemma py_round2_hundredths: "x * 100 \<in> \<int> \<Longrightarrow> py_round2 x = x"
proof -
  assume "x * 100 \<in> \<int>"
  then obtain k where k: "x * 100 = of_int k" by (rule Ints_cases)
  then have "py_round2 x = of_int k / 100"
    by (simp add: py_round2_def round_half_even_of_int)
  with k show ?thesis by simp
qed

lemma py_round2_zero: "py_round2 0 = 0"
  by (simp add: py_round2_def round_half_even_def)

subsection \<open>Rounding to binary64\<close>

lemma round_half_even_near: "\<bar>of_int (round_half_even x) - x\<bar> \<le> 1 / 2"
  unfolding round_half_even_def Let_def by (auto simp: abs_le_iff)

lemma set_double_exponents: "set double_exponents = {- 1074..971}"
  by (simp only: double_exponents_def set_upto)

text \<open>A number lies in at most one binade, so its exponent can be given by hand.\<close>

lemma in_binade_le:
  assumes a: "in_binade x a" and b: "in_binade x b"
  shows "a \<le> b"
proof (rule ccontr)
  assume "\<not> a \<le> b"
  then have "b + 1 \<le> a" by simp
  then have "(2::real) powi (b + 1) \<le> 2 powi a"
    by (intro power_int_increasing) simp_all
  then have "2 ^ 53 * (2::real) powi b \<le> 2 ^ 52 * 2 powi a"
    by (simp add: power_int_add)
  with a b show False unfolding in_binade_def by linarith
qed

lemma in_binade_unique: "in_binade x e \<Longrightarrow> in_binade x e' \<Longrightarrow> e = e'"
  using in_binade_le [of x e e'] in_binade_le [of x e' e] by simp

lemma ulp_exponent_Some: "ulp_exponent x = Some e \<Longrightarrow> in_binade x e"
  by (auto simp add: ulp_exponent_def find_Some_iff)

lemma ulp_exponent_eqI:
  assumes "in_binade x e" and "- 1074 \<le> e" and "e \<le> 971"
  shows "ulp_exponent x = Some e"
proof (cases "ulp_exponent x")
  case None
  then have "\<not> (\<exists>e'. e' \<in> set double_exponents \<and> in_binade x e')"
    by (simp add: ulp_exponent_def find_None_iff)
  with assms show ?thesis by (simp add: set_double_exponents)
next
  case (Some e')
  then have "in_binade x e'" by (rule ulp_exponent_Some)
  with assms(1) have "e = e'" by (rule in_binade_unique)
  with Some show ?thesis by simp
qed

lemma to_double_eqI:
  assumes "in_binade x e" and "- 1074 \<le> e" and "e \<le> 971"
  shows "to_double x = of_int (round_half_even (x / 2 powi e)) * 2 powi e"
  by (simp add: to_double_def ulp_exponent_eqI [OF assms])

lemma to_double_0: "to_double 0 = 0"
proof -
  have "\<And>e. \<not> in_binade 0 e"
    by (simp add: in_binade_def not_le)
  then have "ulp_exponent 0 = None"
    by (simp add: ulp_exponent_def find_None_iff)
  then show ?thesis by (simp add: to_double_def round_half_even_def)
qed

text \<open>
  Rounding keeps the sign, and it does not cross a whole number: below \<open>2 ^ 52\<close>
  every whole number is a multiple of the unit the result is rounded to.
\<close>

lemma scaled_round_nonneg:
  "0 \<le> x \<Longrightarrow> 0 \<le> of_int (round_half_even (x / 2 powi e)) * (2::real) powi e"
proof -
  assume "0 \<le> x"
  then have "0 \<le> \<lfloor>x / 2 powi e\<rfloor>" by simp
  with round_half_even_lower [of "x / 2 powi e"]
  have "0 \<le> round_half_even (x / 2 powi e)" by linarith
  then show ?thesis by simp
qed

lemma scaled_round_le_int:
  assumes "x \<le> of_int k" and "e < 0"
  shows "of_int (round_half_even (x / 2 powi e)) * (2::real) powi e \<le> of_int k"
proof -
  define n where "n = nat (- e)"
  have e: "(2::real) powi e = 1 / 2 ^ n"
    using assms(2) by (simp add: n_def power_int_def field_simps)
  have "x / 2 powi e \<le> of_int (k * 2 ^ n)"
    using assms(1) by (simp add: e)
  then have "\<lceil>x / 2 powi e\<rceil> \<le> k * 2 ^ n"
    by (simp only: ceiling_le_iff)
  with round_half_even_upper [of "x / 2 powi e"]
  have "round_half_even (x / 2 powi e) \<le> k * 2 ^ n" by linarith
  then have "real_of_int (round_half_even (x / 2 powi e)) \<le> of_int (k * 2 ^ n)"
    by (simp only: of_int_le_iff)
  then show ?thesis by (simp add: e field_simps)
qed

lemma to_double_forms:
  "to_double x = x
   \<or> (\<exists>e. (e < 0 \<or> ulp_exponent x = Some e)
           \<and> to_double x = of_int (round_half_even (x / 2 powi e)) * 2 powi e)"
proof (cases "ulp_exponent x")
  case None
  show ?thesis
  proof (cases "\<bar>x\<bar> < 1")
    case True
    have "to_double x = of_int (round_half_even (x / 2 powi (- 1074))) * 2 powi (- 1074)"
      unfolding to_double_def None using True by (simp only: option.case if_True)
    moreover have "(- 1074 :: int) < 0" by simp
    ultimately show ?thesis by blast
  next
    case False
    have "to_double x = x"
      unfolding to_double_def None using False by (simp only: option.case if_False)
    then show ?thesis ..
  qed
next
  case (Some e)
  have "to_double x = of_int (round_half_even (x / 2 powi e)) * 2 powi e"
    unfolding to_double_def Some by (simp only: option.case)
  with Some show ?thesis by blast
qed

lemma to_double_nonneg: "0 \<le> x \<Longrightarrow> 0 \<le> to_double x"
  using to_double_forms [of x] scaled_round_nonneg [of x] by auto

lemma to_double_le_int:
  assumes "x \<le> of_int k" and "\<bar>x\<bar> < 2 ^ 52"
  shows "to_double x \<le> of_int k"
proof -
  have neg: "\<And>e. ulp_exponent x = Some e \<Longrightarrow> e < 0"
  proof -
    fix e assume "ulp_exponent x = Some e"
    then have "in_binade x e" by (rule ulp_exponent_Some)
    with assms(2) have "2 ^ 52 * (2::real) powi e < 2 ^ 52"
      unfolding in_binade_def by linarith
    then have lt: "(2::real) powi e < 1" by simp
    show "e < 0"
    proof (rule ccontr)
      assume "\<not> e < 0"
      then have "(1::real) \<le> 2 powi e" by (intro one_le_power_int) simp_all
      with lt show False by simp
    qed
  qed
  from to_double_forms [of x] show ?thesis
    using assms(1) neg scaled_round_le_int [OF assms(1)] by auto
qed

lemma round2_double_range:
  "0 \<le> x \<and> x \<le> 100 \<Longrightarrow> 0 \<le> round2_double x \<and> round2_double x \<le> 100"
proof -
  assume x: "0 \<le> x \<and> x \<le> 100"
  then have p: "0 \<le> py_round2 x \<and> py_round2 x \<le> of_int 100"
    by (simp add: py_round2_nonneg py_round2_le_100)
  then have "\<bar>py_round2 x\<bar> < 2 ^ 52" by simp
  with p show ?thesis
    unfolding round2_double_def
    using to_double_le_int [of "py_round2 x" 100] by (simp add: to_double_nonneg)
qed

text \<open>The constants and the values used in the runs further down.\<close>

lemma to_double_7_10: "to_double (7 / 10) = 6305039478318694 / 2 ^ 53"
proof -
  have b: "in_binade (7 / 10) (- 53)" by (simp add: in_binade_def)
  show ?thesis by (simp add: to_double_eqI [OF b] round_half_even_def)
qed

lemma to_double_3_10: "to_double (3 / 10) = 5404319552844595 / 2 ^ 54"
proof -
  have b: "in_binade (3 / 10) (- 54)" by (simp add: in_binade_def)
  show ?thesis by (simp add: to_double_eqI [OF b] round_half_even_def)
qed

lemma to_double_neg_half: "to_double (- (1 / 2)) = - (1 / 2)"
proof -
  have b: "in_binade (- (1 / 2)) (- 53)" by (simp add: in_binade_def)
  show ?thesis by (simp add: to_double_eqI [OF b] round_half_even_def)
qed

lemma to_double_15: "to_double 15 = 15"
proof -
  have b: "in_binade 15 (- 49)" by (simp add: in_binade_def)
  show ?thesis by (simp add: to_double_eqI [OF b] round_half_even_def)
qed

lemma to_double_50: "to_double 50 = 50"
proof -
  have b: "in_binade 50 (- 47)" by (simp add: in_binade_def)
  show ?thesis by (simp add: to_double_eqI [OF b] round_half_even_def)
qed

lemma double_mul_50_3_10: "double_mul 50 (to_double (3 / 10)) = 15"
proof -
  let ?x = "50 * (5404319552844595 / 2 ^ 54) :: real"
  have b: "in_binade ?x (- 49)" by (simp add: in_binade_def)
  have "to_double ?x = of_int (round_half_even (?x / 2 powi (- 49))) * 2 powi (- 49)"
    by (rule to_double_eqI [OF b]) simp_all
  also have "\<dots> = 15" by (simp add: round_half_even_def)
  finally show ?thesis unfolding double_mul_def to_double_3_10 .
qed





lemma double_mul_0_left: "double_mul 0 b = 0"
  by (simp add: double_mul_def to_double_0)

lemma double_add_0_left: "double_add 0 b = to_double b"
  by (simp add: double_add_def)

lemma round2_double_15: "round2_double 15 = 15"
  by (simp add: round2_double_def py_round2_def round_half_even_def to_double_15)

lemma round2_double_50: "round2_double 50 = 50"
  by (simp add: round2_double_def py_round2_def round_half_even_def to_double_50)

subsection \<open>The signals and the rule-based score\<close>

lemma velocity_signal_range: "0 \<le> velocity_signal tbl now u \<and> velocity_signal tbl now u \<le> 95"
  by (simp add: velocity_signal_def Let_def)

lemma device_switching_signal_range:
  "0 \<le> device_switching_signal tbl now u \<and> device_switching_signal tbl now u \<le> 90"
  by (simp add: device_switching_signal_def Let_def)

lemma network_switching_signal_range:
  "0 \<le> network_switching_signal tbl now u \<and> network_switching_signal tbl now u \<le> 85"
  by (simp add: network_switching_signal_def Let_def)

lemma latency_anomaly_signal_range:
  "0 \<le> latency_anomaly_signal tbl u p \<and> latency_anomaly_signal tbl u p \<le> 70"
  by (simp add: latency_anomaly_signal_def Let_def)

lemma timing_pattern_signal_range:
  "0 \<le> timing_pattern_signal tbl u \<and> timing_pattern_signal tbl u \<le> 80"
  by (simp add: timing_pattern_signal_def Let_def split: list.splits)

lemma fingerprint_change_signal_range:
  "0 \<le> fingerprint_change_signal tbl u p \<and> fingerprint_change_signal tbl u p \<le> 60"
  by (simp add: fingerprint_change_signal_def split: option.splits)

lemma device_spoofing_signal_range:
  "0 \<le> device_spoofing_signal p \<and> device_spoofing_signal p \<le> 85"
  by (simp add: device_spoofing_signal_def Let_def)

lemma weighted_total_signal_scores:
  "weighted_total (signal_scores tbl now u p) =
     velocity_signal tbl now u * 0.25
     + device_switching_signal tbl now u * 0.20
     + network_switching_signal tbl now u * 0.15
     + latency_anomaly_signal tbl u p * 0.15
     + timing_pattern_signal tbl u * 0.10
     + fingerprint_change_signal tbl u p * 0.10
     + device_spoofing_signal p * 0.05"
  by (simp add: weighted_total_def signal_scores_def weight_of_def weights_def)

lemma weighted_total_range:
  "0 \<le> weighted_total (signal_scores tbl now u p)
   \<and> weighted_total (signal_scores tbl now u p) \<le> 83.25"
  using velocity_signal_range [of tbl now u] device_switching_signal_range [of tbl now u]
    network_switching_signal_range [of tbl now u] latency_anomaly_signal_range [of tbl u p]
    timing_pattern_signal_range [of tbl u] fingerprint_change_signal_range [of tbl u p]
    device_spoofing_signal_range [of p]
  unfolding weighted_total_signal_scores by simp

lemma rule_score_range:
  "0 \<le> fst (calculate_risk_score tbl now u p) \<and> fst (calculate_risk_score tbl now u p) \<le> 100"
  using weighted_total_range [of tbl now u p]
  by (simp add: calculate_risk_score_def Let_def py_round2_nonneg py_round2_le_100)

text \<open>
  The seven signals are whole numbers and the weights are whole hundredths, so the
  weighted total is a whole number of hundredths and \<^verbatim>\<open>round(total, 2)\<close> returns
  it unchanged.
\<close>

lemma signals_integral:
  "velocity_signal tbl now u \<in> \<int>"
  "device_switching_signal tbl now u \<in> \<int>"
  "network_switching_signal tbl now u \<in> \<int>"
  "latency_anomaly_signal tbl u p \<in> \<int>"
  "timing_pattern_signal tbl u \<in> \<int>"
  "fingerprint_change_signal tbl u p \<in> \<int>"
  "device_spoofing_signal p \<in> \<int>"
  by (simp_all add: velocity_signal_def device_switching_signal_def
      network_switching_signal_def latency_anomaly_signal_def timing_pattern_signal_def
      fingerprint_change_signal_def device_spoofing_signal_def Let_def
      split: list.splits option.splits)

lemma rule_score_exact:
  "fst (calculate_risk_score tbl now u p) = weighted_total (signal_scores tbl now u p)"
proof -
  have "weighted_total (signal_scores tbl now u p) * 100 =
      25 * velocity_signal tbl now u + 20 * device_switching_signal tbl now u
      + 15 * network_switching_signal tbl now u + 15 * latency_anomaly_signal tbl u p
      + 10 * timing_pattern_signal tbl u + 10 * fingerprint_change_signal tbl u p
      + 5 * device_spoofing_signal p"
    by (simp add: weighted_total_signal_scores)
  also have "\<dots> \<in> \<int>"
    by (intro Ints_add Ints_mult signals_integral) simp_all
  finally show ?thesis
    by (simp add: calculate_risk_score_def Let_def py_round2_hundredths)
qed

subsection \<open>The score and the breakdown of \<^verbatim>\<open>log_attempt\<close>\<close>

lemma rule_score_le: "fst (calculate_risk_score tbl now u p) \<le> 83.25"
  using weighted_total_range [of tbl now u p] by (simp add: rule_score_exact)

lemma ml_risk_range:
  "0 \<le> get_ml_risk_score sc s clk u p \<and> get_ml_risk_score sc s clk u p \<le> 100"
proof (cases "ml_model s \<noteq> None \<and> ml_available s")
  case True
  then obtain model where m: "ml_model s = Some model" by auto
  let ?v = "double_mul
      (- to_double (sc model (ml_features (login_attempts s) (t_ml clk) (t_ml_rule clk) u p)))
      100"
  let ?m = "max 0 (min 100 ?v)"
  have "0 \<le> ?m \<and> ?m \<le> 100" by simp
  then have "0 \<le> round2_double ?m \<and> round2_double ?m \<le> 100"
    by (rule round2_double_range)
  then show ?thesis
    using True m by (simp add: get_ml_risk_score_def Let_def)
next
  case False
  then show ?thesis
    by (auto simp add: get_ml_risk_score_def split: option.splits)
qed

lemma blend_range:
  assumes r: "0 \<le> r \<and> r \<le> 83.25" and m: "0 \<le> m \<and> m \<le> 100"
  shows "0 \<le> round2_double (double_add (double_mul r (to_double 0.7))
                              (double_mul m (to_double 0.3)))
         \<and> round2_double (double_add (double_mul r (to_double 0.7))
                              (double_mul m (to_double 0.3))) \<le> 100"
proof -
  let ?a = "double_mul r (to_double 0.7)"
  let ?b = "double_mul m (to_double 0.3)"
  have c7: "to_double 0.7 = 6305039478318694 / 2 ^ 53" using to_double_7_10 by simp
  have c3: "to_double 0.3 = 5404319552844595 / 2 ^ 54" using to_double_3_10 by simp
  have pa: "0 \<le> r * to_double 0.7 \<and> r * to_double 0.7 \<le> of_int 59"
    using r unfolding c7 by simp
  have pb: "0 \<le> m * to_double 0.3 \<and> m * to_double 0.3 \<le> of_int 30"
    using m unfolding c3 by simp
  have a: "0 \<le> ?a \<and> ?a \<le> of_int 59"
    unfolding double_mul_def using pa by (intro conjI to_double_nonneg to_double_le_int) auto
  have b: "0 \<le> ?b \<and> ?b \<le> of_int 30"
    unfolding double_mul_def using pb by (intro conjI to_double_nonneg to_double_le_int) auto
  have c: "0 \<le> double_add ?a ?b \<and> double_add ?a ?b \<le> of_int 89"
    unfolding double_add_def using a b by (intro conjI to_double_nonneg to_double_le_int) auto
  then have "0 \<le> double_add ?a ?b \<and> double_add ?a ?b \<le> 100" by simp
  then show ?thesis by (rule round2_double_range)
qed

lemma scored_range: "0 \<le> fst (scored sc clk s u p) \<and> fst (scored sc clk s u p) \<le> 100"
proof -
  let ?r = "fst (calculate_risk_score (login_attempts s) (t_rule clk) u p)"
  let ?m = "get_ml_risk_score sc s clk u p"
  have r: "0 \<le> ?r \<and> ?r \<le> 100" by (rule rule_score_range)
  have r': "0 \<le> ?r \<and> ?r \<le> 83.25" using r rule_score_le by simp
  have m: "0 \<le> ?m \<and> ?m \<le> 100" by (rule ml_risk_range)
  show ?thesis
    using r blend_range [OF r' m] by (simp add: scored_def Let_def split_beta)
qed



lemma scored_breakdown:
  "snd (scored sc clk s u p) =
     signal_scores (login_attempts s) (t_rule clk) u p
       @ (if ml_available s \<and> ml_model s \<noteq> None
          then [(''ml_anomaly'', get_ml_risk_score sc s clk u p)] else [])"
  by (simp add: scored_def calculate_risk_score_def Let_def)

lemma log_attempt_score: "fst (snd (log_attempt sc clk s u st p ok)) = fst (scored sc clk s u p)"
  by (simp add: log_attempt_def Let_def split_beta)

lemma log_attempt_breakdown:
  "snd (snd (log_attempt sc clk s u st p ok)) = snd (scored sc clk s u p)"
  by (simp add: log_attempt_def Let_def split_beta)

subsection \<open>What \<^verbatim>\<open>train_ml_model\<close> and \<^verbatim>\<open>log_attempt\<close> do to the state\<close>

lemma train_ml_model_login_attempts: "login_attempts (train_ml_model s) = login_attempts s"
  by (simp add: train_ml_model_def Let_def)

lemma train_ml_model_ml_available: "ml_available (train_ml_model s) = ml_available s"
  by (simp add: train_ml_model_def Let_def)

lemma train_ml_model_too_few:
  "length (filter (\<lambda>e. 0 < latency e) (login_attempts s)) < 10
   \<Longrightarrow> ml_model (train_ml_model s) = ml_model s"
  by (simp add: train_ml_model_def training_data_def Let_def)

lemma risk_score_new_row: "risk_score (new_row tbl now u st p ok r) = r"
  by (simp add: new_row_def)

lemma new_row_fields:
  "username (new_row tbl now u st p ok r) = u"
  "step (new_row tbl now u st p ok r) = st"
  "device_id (new_row tbl now u st p ok r) = dict_get (param_device_id p) []"
  "network_operator (new_row tbl now u st p ok r) = dict_get (param_network_operator p) []"
  "latency (new_row tbl now u st p ok r) = dict_get (param_latency p) 0"
  "fingerprint (new_row tbl now u st p ok r) = dict_get (param_fingerprint p) []"
  "ip_address (new_row tbl now u st p ok r) = dict_get (param_ip_address p) []"
  "user_agent (new_row tbl now u st p ok r) = dict_get (param_user_agent p) []"
  "timestamp (new_row tbl now u st p ok r) = now"
  "success (new_row tbl now u st p ok r) = ok"
  by (simp_all add: new_row_def)

lemma log_attempt_login_attempts:
  "login_attempts (fst (log_attempt sc clk s u st p ok)) =
     login_attempts s
       @ [new_row (login_attempts s) (t_insert clk) u st p ok (fst (scored sc clk s u p))]"
  by (simp add: log_attempt_def Let_def split_beta train_ml_model_login_attempts)

lemma log_attempt_ml_available:
  "ml_available (fst (log_attempt sc clk s u st p ok)) = ml_available s"
  by (simp add: log_attempt_def Let_def split_beta train_ml_model_ml_available)


subsection \<open>The functions on the concrete inputs\<close>

lemma ueba_init_no_rows:
  "ueba_init True [] =
     \<lparr>ml_available = True, ml_model = None, login_attempts = [], stdout = [NotEnoughData]\<rparr>"
  by (simp add: ueba_init_def train_ml_model_def training_data_def Let_def)

lemma ueba_init_ten_rows:
  "ueba_init True (replicate 10 seed_row) =
     \<lparr>ml_available = True,
      ml_model = Some (training_data (replicate 10 seed_row)),
      login_attempts = replicate 10 seed_row,
      stdout = [Trained 10]\<rparr>"
  by (simp add: ueba_init_def train_ml_model_def training_data_def seed_row_def Let_def)

lemma upper_DEVICE_DEFAULT: "upper ''DEVICE_DEFAULT'' = ''DEVICE_DEFAULT''"
  by (simp add: upper_def upper_char_def)

lemma signal_scores_new_user_no_params:
  "signal_scores [] now u no_params =
     [(''velocity'', 0), (''device_switching'', 0), (''network_switching'', 0),
      (''latency_anomaly'', 0), (''timing_pattern'', 0), (''fingerprint_change'', 0),
      (''device_spoofing'', 0)]"
  by (simp add: signal_scores_def velocity_signal_def device_switching_signal_def
      network_switching_signal_def latency_anomaly_signal_def timing_pattern_signal_def
      fingerprint_change_signal_def device_spoofing_signal_def count_since_def
      distinct_devices_since_def distinct_networks_since_def user_since_def
      avg_latency_query_def positive_latencies_def last_two_timestamps_def
      last_fingerprint_def no_params_def dict_get_def upper_def)

lemma calculate_risk_score_new_user_no_params:
  "calculate_risk_score [] now u no_params =
     (0, [(''velocity'', 0), (''device_switching'', 0), (''network_switching'', 0),
          (''latency_anomaly'', 0), (''timing_pattern'', 0), (''fingerprint_change'', 0),
          (''device_spoofing'', 0)])"
  by (simp add: calculate_risk_score_def signal_scores_new_user_no_params weighted_total_def
      py_round2_zero)

lemma signal_scores_other_users_default_params:
  "signal_scores (replicate n seed_row) now ''user1'' default_params =
     [(''velocity'', 0), (''device_switching'', 0), (''network_switching'', 0),
      (''latency_anomaly'', 0), (''timing_pattern'', 0), (''fingerprint_change'', 0),
      (''device_spoofing'', 0)]"
  by (simp add: signal_scores_def velocity_signal_def device_switching_signal_def
      network_switching_signal_def latency_anomaly_signal_def timing_pattern_signal_def
      fingerprint_change_signal_def device_spoofing_signal_def count_since_def
      distinct_devices_since_def distinct_networks_since_def user_since_def
      avg_latency_query_def positive_latencies_def last_two_timestamps_def
      last_fingerprint_def default_params_def dict_get_def upper_DEVICE_DEFAULT
      seed_row_def)

lemma calculate_risk_score_other_users_default_params:
  "calculate_risk_score (replicate n seed_row) now ''user1'' default_params =
     (0, [(''velocity'', 0), (''device_switching'', 0), (''network_switching'', 0),
          (''latency_anomaly'', 0), (''timing_pattern'', 0), (''fingerprint_change'', 0),
          (''device_spoofing'', 0)])"
  by (simp add: calculate_risk_score_def signal_scores_other_users_default_params
      weighted_total_def py_round2_zero)




lemma get_ml_risk_score_ten_rows:
  "get_ml_risk_score const_scorer (ueba_init True (replicate 10 seed_row)) clk u p = 50"
  by (simp add: get_ml_risk_score_def ueba_init_ten_rows const_scorer_def double_mul_def
      to_double_neg_half to_double_50 round2_double_50)

lemma scored_ten_rows:
  "scored const_scorer clock0 (ueba_init True (replicate 10 seed_row)) ''user1'' default_params
     = (15, [(''velocity'', 0), (''device_switching'', 0), (''network_switching'', 0),
             (''latency_anomaly'', 0), (''timing_pattern'', 0), (''fingerprint_change'', 0),
             (''device_spoofing'', 0), (''ml_anomaly'', 50)])"
  unfolding scored_def get_ml_risk_score_ten_rows
  by (simp add: ueba_init_ten_rows calculate_risk_score_other_users_default_params
      double_mul_0_left double_mul_50_3_10 double_add_0_left to_double_15 round2_double_15)

section \<open>The claims\<close>

subsection \<open>C1: the returned and the stored score lie in [0, 100]\<close>

text \<open>
  Claim C1. For every attempt \<^verbatim>\<open>log_attempt\<close> is given (any username, step,
  parameters and success flag, in any state of the engine, with a model or without one,
  whatever the model answers), the risk score returned is at least 0 and at most 100,
  and it is the score written into the new row. With a model the score is the rounded
  blend of two numbers of [0, 100]; without one it is the rule-based score, which the
  bounds of the seven signals keep at or below 83.25.
\<close>

theorem log_attempt_risk_score_range:
  "0 \<le> fst (snd (log_attempt sc clk s u st p ok))
   \<and> fst (snd (log_attempt sc clk s u st p ok)) \<le> 100
   \<and> risk_score (last (login_attempts (fst (log_attempt sc clk s u st p ok))))
       = fst (snd (log_attempt sc clk s u st p ok))"
  using scored_range [of sc clk s u p]
  by (simp add: log_attempt_score log_attempt_login_attempts risk_score_new_row)

subsection \<open>C2: no validation of the step or of the parameters\<close>

lemma log_attempt_call_in_range:
  "sqlite_integer st \<Longrightarrow> sqlite_integer (dict_get (param_latency p) 0)
   \<Longrightarrow> log_attempt_call sc clk s u st p ok = Inr (log_attempt sc clk s u st p ok)"
  by (simp add: log_attempt_call_def)

text \<open>
  Claim C2, as amended. A call with an invalid step or with parameters missing does not
  fail with a ValidationError; \<^verbatim>\<open>log_attempt\<close> tests the step nowhere and reads
  every parameter with \<^verbatim>\<open>params.get\<close> and a default. Whenever the step and the
  latency fit SQLite's signed 64-bit INTEGER, whatever the step is and whichever keys
  are missing, the call returns a risk score and appends exactly one row, which holds
  the username and the step as given, each parameter given or else its default (the
  empty string, and 0 for the latency), the success flag and the score returned. When
  the step or the latency does not fit, the call ends in the exception of the INSERT.
\<close>

theorem log_attempt_never_validates:
  "(sqlite_integer st \<and> sqlite_integer (case param_latency p of None \<Rightarrow> 0 | Some v \<Rightarrow> v)
      \<longrightarrow>
      (\<exists>s' r bd.
         log_attempt_call sc clk s u st p ok = Inr (s', r, bd)
         \<and> (let row = last (login_attempts s')
            in login_attempts s' = login_attempts s @ [row]
               \<and> username row = u
               \<and> step row = st
               \<and> device_id row = (case param_device_id p of None \<Rightarrow> [] | Some v \<Rightarrow> v)
               \<and> network_operator row
                   = (case param_network_operator p of None \<Rightarrow> [] | Some v \<Rightarrow> v)
               \<and> latency row = (case param_latency p of None \<Rightarrow> 0 | Some v \<Rightarrow> v)
               \<and> fingerprint row = (case param_fingerprint p of None \<Rightarrow> [] | Some v \<Rightarrow> v)
               \<and> ip_address row = (case param_ip_address p of None \<Rightarrow> [] | Some v \<Rightarrow> v)
               \<and> user_agent row = (case param_user_agent p of None \<Rightarrow> [] | Some v \<Rightarrow> v)
               \<and> success row = ok
               \<and> risk_score row = r)))
   \<and> (\<not> (sqlite_integer st
            \<and> sqlite_integer (case param_latency p of None \<Rightarrow> 0 | Some v \<Rightarrow> v))
      \<longrightarrow> log_attempt_call sc clk s u st p ok = Inl IntegerOutOfRange)"
proof -
  let ?r = "log_attempt sc clk s u st p ok"
  have row: "let row = last (login_attempts (fst ?r))
      in login_attempts (fst ?r) = login_attempts s @ [row]
         \<and> username row = u
         \<and> step row = st
         \<and> device_id row = (case param_device_id p of None \<Rightarrow> [] | Some v \<Rightarrow> v)
         \<and> network_operator row = (case param_network_operator p of None \<Rightarrow> [] | Some v \<Rightarrow> v)
         \<and> latency row = (case param_latency p of None \<Rightarrow> 0 | Some v \<Rightarrow> v)
         \<and> fingerprint row = (case param_fingerprint p of None \<Rightarrow> [] | Some v \<Rightarrow> v)
         \<and> ip_address row = (case param_ip_address p of None \<Rightarrow> [] | Some v \<Rightarrow> v)
         \<and> user_agent row = (case param_user_agent p of None \<Rightarrow> [] | Some v \<Rightarrow> v)
         \<and> success row = ok
         \<and> risk_score row = fst (snd ?r)"
    by (simp add: Let_def log_attempt_login_attempts log_attempt_score new_row_fields
        risk_score_new_row dict_get_def)
  have d: "dict_get (param_latency p) 0 = (case param_latency p of None \<Rightarrow> 0 | Some v \<Rightarrow> v)"
    by (simp add: dict_get_def)
  show ?thesis
  proof (intro conjI impI)
    assume "sqlite_integer st
      \<and> sqlite_integer (case param_latency p of None \<Rightarrow> 0 | Some v \<Rightarrow> v)"
    then have "log_attempt_call sc clk s u st p ok = Inr (fst ?r, fst (snd ?r), snd (snd ?r))"
      by (simp add: log_attempt_call_def d)
    with row show "\<exists>s' r bd.
         log_attempt_call sc clk s u st p ok = Inr (s', r, bd)
         \<and> (let row = last (login_attempts s')
            in login_attempts s' = login_attempts s @ [row]
               \<and> username row = u
               \<and> step row = st
               \<and> device_id row = (case param_device_id p of None \<Rightarrow> [] | Some v \<Rightarrow> v)
               \<and> network_operator row
                   = (case param_network_operator p of None \<Rightarrow> [] | Some v \<Rightarrow> v)
               \<and> latency row = (case param_latency p of None \<Rightarrow> 0 | Some v \<Rightarrow> v)
               \<and> fingerprint row = (case param_fingerprint p of None \<Rightarrow> [] | Some v \<Rightarrow> v)
               \<and> ip_address row = (case param_ip_address p of None \<Rightarrow> [] | Some v \<Rightarrow> v)
               \<and> user_agent row = (case param_user_agent p of None \<Rightarrow> [] | Some v \<Rightarrow> v)
               \<and> success row = ok
               \<and> risk_score row = r)"
      by blast
  next
    assume "\<not> (sqlite_integer st
      \<and> sqlite_integer (case param_latency p of None \<Rightarrow> 0 | Some v \<Rightarrow> v))"
    then show "log_attempt_call sc clk s u st p ok = Inl IntegerOutOfRange"
      by (simp add: log_attempt_call_def d)
  qed
qed

text \<open>
  On a fresh engine: step 7 with an empty \<^verbatim>\<open>params\<close> fits, and the call returns
  with a row of step 7 and latency 0 stored; step \<open>2 ^ 63\<close> does not fit, and the call
  ends in the exception.
\<close>

theorem log_attempt_never_validates_witness:
  "sqlite_integer 7
   \<and> sqlite_integer (case param_latency no_params of None \<Rightarrow> 0 | Some v \<Rightarrow> v)
   \<and> (\<exists>s' r bd.
         log_attempt_call const_scorer clock0 (ueba_init False []) ''user1'' 7 no_params True
           = Inr (s', r, bd)
         \<and> length (login_attempts s') = 1
         \<and> step (last (login_attempts s')) = 7
         \<and> latency (last (login_attempts s')) = 0
         \<and> risk_score (last (login_attempts s')) = r)
   \<and> \<not> sqlite_integer (2 ^ 63)
   \<and> log_attempt_call const_scorer clock0 (ueba_init False []) ''user1'' (2 ^ 63) no_params True
       = Inl IntegerOutOfRange"
proof -
  have i7: "sqlite_integer 7" and i0: "sqlite_integer 0" and big: "\<not> sqlite_integer (2 ^ 63)"
    by (simp_all add: sqlite_integer_def)
  have l: "(case param_latency no_params of None \<Rightarrow> 0 | Some v \<Rightarrow> v) = (0::int)"
    by (simp add: no_params_def)
  have e: "login_attempts (ueba_init False []) = []" by (simp add: ueba_init_def)
  have "\<exists>s' r bd.
         log_attempt_call const_scorer clock0 (ueba_init False []) ''user1'' 7 no_params True
           = Inr (s', r, bd)
         \<and> length (login_attempts s') = 1
         \<and> step (last (login_attempts s')) = 7
         \<and> latency (last (login_attempts s')) = 0
         \<and> risk_score (last (login_attempts s')) = r"
  proof -
    from log_attempt_never_validates
      [of 7 no_params const_scorer clock0 "ueba_init False []" "''user1''" True] i7 i0
    obtain s' r bd where
      call: "log_attempt_call const_scorer clock0 (ueba_init False []) ''user1'' 7 no_params True
               = Inr (s', r, bd)"
      and tbl: "login_attempts s' = login_attempts (ueba_init False []) @ [last (login_attempts s')]"
      and st: "step (last (login_attempts s')) = 7"
      and la: "latency (last (login_attempts s')) = 0"
      and rs: "risk_score (last (login_attempts s')) = r"
      unfolding l Let_def by blast
    from tbl have "length (login_attempts s') = length [last (login_attempts s')]"
      unfolding e by simp
    then have "length (login_attempts s') = 1" by simp
    with call st la rs show ?thesis by blast
  qed
  moreover
  have "log_attempt_call const_scorer clock0 (ueba_init False []) ''user1'' (2 ^ 63) no_params True
       = Inl IntegerOutOfRange"
    using log_attempt_never_validates
      [of "2 ^ 63" no_params const_scorer clock0 "ueba_init False []" "''user1''" True] big
    by simp
  ultimately show ?thesis using i7 i0 big by (simp add: l)
qed

text \<open>
  Claim C2 as the spec states it (an invalid step or a missing parameter fails with a
  ValidationError, and no score is produced or stored) is false: on a fresh engine,
  step 7 with an empty \<^verbatim>\<open>params\<close> returns the score 0 with its breakdown and
  stores a row with step 7. Both ints of the INSERT, 7 and 0, fit 64 bits.
\<close>

theorem invalid_step_is_scored_and_stored:
  "log_attempt const_scorer clock0 (ueba_init False []) ''user1'' 7 no_params True =
     (\<lparr>ml_available = False, ml_model = None,
       login_attempts =
         [\<lparr>attempt_id = 1, username = ''user1'', step = 7, device_id = [],
           network_operator = [], latency = 0, fingerprint = [], ip_address = [],
           user_agent = [], timestamp = 1000003, success = True, risk_score = 0\<rparr>],
       stdout = []\<rparr>,
      0,
      [(''velocity'', 0), (''device_switching'', 0), (''network_switching'', 0),
       (''latency_anomaly'', 0), (''timing_pattern'', 0), (''fingerprint_change'', 0),
       (''device_spoofing'', 0)])"
proof -
  have s: "ueba_init False [] =
      \<lparr>ml_available = False, ml_model = None, login_attempts = [], stdout = []\<rparr>"
    by (simp add: ueba_init_def)
  have sc: "scored const_scorer clock0 (ueba_init False []) ''user1'' no_params =
      calculate_risk_score [] (t_rule clock0) ''user1'' no_params"
    by (simp add: scored_def s split_beta)
  show ?thesis
    unfolding log_attempt_def sc calculate_risk_score_new_user_no_params
    by (simp add: s new_row_def no_params_def dict_get_def clock0_def)
qed

subsection \<open>C3: the blend of the rule-based score and the model's\<close>



subsection \<open>C4: when a write triggers a retrain\<close>

text \<open>
  A retrain attempt is visible in what the engine prints: \<^verbatim>\<open>log_attempt\<close> prints
  the line \<open>Retraining\<close> right before it calls \<^verbatim>\<open>train_ml_model\<close>, and nothing
  else prints that line.
\<close>

lemma train_ml_model_prints:
  "ml_available s \<Longrightarrow> \<exists>m. m \<noteq> Retraining \<and> stdout (train_ml_model s) = stdout s @ [m]"
  by (simp add: train_ml_model_def Let_def)

lemma log_attempt_stdout_quiet:
  "\<not> (ml_available s \<and> Suc (length (login_attempts s)) mod 50 = 0)
   \<Longrightarrow> stdout (fst (log_attempt sc clk s u st p ok)) = stdout s"
  by (auto simp add: log_attempt_def Let_def split_beta)

lemma log_attempt_stdout_retrain:
  assumes "ml_available s" and "Suc (length (login_attempts s)) mod 50 = 0"
  shows "\<exists>m. m \<noteq> Retraining
          \<and> stdout (fst (log_attempt sc clk s u st p ok)) = stdout s @ [Retraining, m]"
proof -
  let ?s1 = "s\<lparr>login_attempts :=
                 login_attempts s
                   @ [new_row (login_attempts s) (t_insert clk) u st p ok
                        (fst (scored sc clk s u p))]\<rparr>"
  let ?s2 = "?s1\<lparr>stdout := stdout ?s1 @ [Retraining]\<rparr>"
  have "fst (log_attempt sc clk s u st p ok) = train_ml_model ?s2"
    using assms by (simp add: log_attempt_def Let_def split_beta)
  moreover have "ml_available ?s2" using assms by simp
  ultimately show ?thesis
    using train_ml_model_prints [of ?s2] by auto
qed

text \<open>
  Claim C4, as amended. For every write of an event by \<^verbatim>\<open>log_attempt\<close>, a retrain
  is attempted if and only if the library is there (\<^verbatim>\<open>ML_AVAILABLE\<close>) and the
  number of rows in the table after the write is an exact multiple of 50. The lines
  printed during the call are those past the old end of \<open>stdout\<close>.
\<close>

theorem retrain_iff_library_and_multiple_of_50:
  "Retraining \<in> set (drop (length (stdout s)) (stdout (fst (log_attempt sc clk s u st p ok))))
   = (ml_available s \<and> length (login_attempts (fst (log_attempt sc clk s u st p ok))) mod 50 = 0)"
proof (cases "ml_available s \<and> Suc (length (login_attempts s)) mod 50 = 0")
  case True
  then obtain m where "stdout (fst (log_attempt sc clk s u st p ok)) = stdout s @ [Retraining, m]"
    using log_attempt_stdout_retrain [of s sc clk u st p ok] by auto
  then show ?thesis using True by (simp add: log_attempt_login_attempts)
next
  case False
  then have "stdout (fst (log_attempt sc clk s u st p ok)) = stdout s"
    by (rule log_attempt_stdout_quiet)
  then show ?thesis using False by (auto simp add: log_attempt_login_attempts)
qed

text \<open>
  Claim C4 as the spec states it (a retrain is attempted at every multiple of 50) is
  false where scikit-learn is not installed: the write that brings the table from 49
  rows to 50 prints nothing and leaves the engine without a model, since the test is
  \<^verbatim>\<open>ML_AVAILABLE and total % 50 == 0 and total > 0\<close>.
\<close>

theorem no_retrain_at_50_without_library:
  "length (login_attempts (fst (log_attempt const_scorer clock0
       (ueba_init False (replicate 49 seed_row)) ''user1'' 1 default_params True))) = 50
   \<and> stdout (fst (log_attempt const_scorer clock0
       (ueba_init False (replicate 49 seed_row)) ''user1'' 1 default_params True)) = []
   \<and> ml_model (fst (log_attempt const_scorer clock0
       (ueba_init False (replicate 49 seed_row)) ''user1'' 1 default_params True)) = None"
proof -
  let ?s = "ueba_init False (replicate 49 seed_row)"
  have s: "?s = \<lparr>ml_available = False, ml_model = None,
                 login_attempts = replicate 49 seed_row, stdout = []\<rparr>"
    by (simp add: ueba_init_def)
  have "stdout (fst (log_attempt const_scorer clock0 ?s ''user1'' 1 default_params True)) = stdout ?s"
    by (rule log_attempt_stdout_quiet) (simp add: s)
  moreover have "ml_model (fst (log_attempt const_scorer clock0 ?s ''user1'' 1 default_params True)) = None"
    by (simp add: log_attempt_def Let_def split_beta s)
  ultimately show ?thesis
    by (simp add: log_attempt_login_attempts s)
qed

subsection \<open>C5: the features at scoring and at training\<close>

text \<open>
  Claim C5 says that training and scoring use the same five features with the same
  definitions: latency, rule-based score, step, the user's rows of the preceding five
  minutes, the user's distinct devices of the preceding thirty minutes. The code does
  not: one attempt gets two different feature rows. An engine with a model, trained on
  ten rows of another user, logs an attempt of \<open>user1\<close> at step 3. To score it,
  \<^verbatim>\<open>get_ml_risk_score\<close> builds the row [150, 0, 1, 0, 0]: the step is read from
  \<^verbatim>\<open>params.get('step', 1)\<close>, which no caller sets, and not from the step argument
  of \<^verbatim>\<open>log_attempt\<close>. Once the attempt is stored, the training query gives for it the
  row [150, 15, 3, 1, 1]: the stored step, the stored blended score in place of the
  rule-based one, and two window counts without an upper bound, which count the row
  itself (and would count every later row).
\<close>

theorem scoring_and_training_features_differ:
  "ml_features (login_attempts (ueba_init True (replicate 10 seed_row)))
       (t_ml clock0) (t_ml_rule clock0) ''user1'' default_params
     = [150, 0, 1, 0, 0]
   \<and> training_row
        (login_attempts (fst (log_attempt const_scorer clock0
           (ueba_init True (replicate 10 seed_row)) ''user1'' 3 default_params True)))
        (last (login_attempts (fst (log_attempt const_scorer clock0
           (ueba_init True (replicate 10 seed_row)) ''user1'' 3 default_params True))))
     = [150, 15, 3, 1, 1]"
proof -
  let ?s = "ueba_init True (replicate 10 seed_row)"
  have tbl: "login_attempts ?s = replicate 10 seed_row"
    by (simp add: ueba_init_ten_rows)
  have f: "ml_features (login_attempts ?s) (t_ml clock0) (t_ml_rule clock0) ''user1''
             default_params = [150, 0, 1, 0, 0]"
    unfolding tbl ml_features_def calculate_risk_score_other_users_default_params
    by (simp add: count_since_def distinct_devices_since_def user_since_def seed_row_def
        default_params_def dict_get_def)
  have t: "login_attempts (fst (log_attempt const_scorer clock0 ?s ''user1'' 3 default_params True))
      = replicate 10 seed_row
          @ [new_row (replicate 10 seed_row) (t_insert clock0) ''user1'' 3 default_params True 15]"
    by (simp add: log_attempt_login_attempts scored_ten_rows) (simp add: ueba_init_ten_rows)
  show ?thesis
    unfolding t f
    by (simp add: training_row_def new_row_def count_since_def distinct_devices_since_def
        user_since_def seed_row_def default_params_def dict_get_def clock0_def)
qed

subsection \<open>C6: the additional risk of an abandoned flow\<close>

text \<open>
  Claim C6. For every username and a last step of 1 or 2, \<^verbatim>\<open>check_abandonment\<close>
  returns the base risk (12 after step 1, 18 after step 2) plus exactly one escalation,
  chosen by the number \<open>c\<close> of the stored rows that are the user's, are stamped
  later than 60 minutes before now, have a step below 3 and have no success: 15 if
  \<open>c > 5\<close>, else 10 if \<open>c > 3\<close>, else 6 if \<open>c > 1\<close>, else 0. When no stored
  row is such a row (a first abandonment, whatever else is stored) it returns exactly
  12 after step 1 and exactly 18 after step 2.
\<close>

theorem check_abandonment_tiers:
  "(last_step = 1 \<or> last_step = 2 \<longrightarrow>
      check_abandonment tbl now u last_step =
        (if last_step = 1 then 12 else 18)
        + (let c = int (length (filter (\<lambda>e. username e = u \<and> now - 3600000 < timestamp e
                                              \<and> step e < 3 \<and> \<not> success e) tbl))
           in if 5 < c then 15 else if 3 < c then 10 else if 1 < c then 6 else 0))
   \<and> ((\<forall>e\<in>set tbl. \<not> (username e = u \<and> now - 3600000 < timestamp e
                          \<and> step e < 3 \<and> \<not> success e)) \<longrightarrow>
      check_abandonment tbl now u 1 = 12 \<and> check_abandonment tbl now u 2 = 18)"
proof -
  have "(\<forall>e\<in>set tbl. \<not> (username e = u \<and> now - 3600000 < timestamp e
                          \<and> step e < 3 \<and> \<not> success e))
        \<Longrightarrow> abandonment_query tbl now u = 0"
    by (simp add: abandonment_query_def filter_empty_conv)
  then show ?thesis
    by (auto simp add: check_abandonment_def Let_def abandonment_query_def)
qed

text \<open>
  The spec's examples, on rows that tell the four conditions of the count apart. Among
  the six rows of \<open>abandonment_rows\<close> only the last two count for \<open>user1\<close> (the
  others are too old, successful, of step 3, or of another user): the results are 18
  (12 + 6) and 24 (18 + 6). Six old successful rows of step 3 count for nothing: the
  results are 12 and 18, as for a user with no row.
\<close>

theorem check_abandonment_tiers_witness:
  "int (length (filter (\<lambda>e. username e = ''user1'' \<and> 10000000 - 3600000 < timestamp e
                             \<and> step e < 3 \<and> \<not> success e) abandonment_rows)) = 2
   \<and> check_abandonment abandonment_rows 10000000 ''user1'' 1 = 18
   \<and> check_abandonment abandonment_rows 10000000 ''user1'' 2 = 24
   \<and> check_abandonment (replicate 6 (seed_row\<lparr>username := ''user1'', step := 3\<rparr>))
        10000000 ''user1'' 1 = 12
   \<and> check_abandonment (replicate 6 (seed_row\<lparr>username := ''user1'', step := 3\<rparr>))
        10000000 ''user1'' 2 = 18
   \<and> check_abandonment [] 10000000 ''user1'' 1 = 12
   \<and> check_abandonment [] 10000000 ''user1'' 2 = 18"
proof -
  let ?old = "replicate 6 (seed_row\<lparr>username := ''user1'', step := 3\<rparr>)"
  have c: "int (length (filter (\<lambda>e. username e = ''user1'' \<and> 10000000 - 3600000 < timestamp e
                             \<and> step e < 3 \<and> \<not> success e) abandonment_rows)) = 2"
    by (simp add: abandonment_rows_def seed_row_def)
  have none_old: "\<forall>e\<in>set ?old. \<not> (username e = ''user1'' \<and> 10000000 - 3600000 < timestamp e
                          \<and> step e < 3 \<and> \<not> success e)"
    by (simp add: seed_row_def)
  have none_empty: "\<forall>e\<in>set ([] :: login_attempt list).
      \<not> (username e = ''user1'' \<and> 10000000 - 3600000 < timestamp e
          \<and> step e < 3 \<and> \<not> success e)"
    by simp
  have "check_abandonment abandonment_rows 10000000 ''user1'' 1 = 18"
    using check_abandonment_tiers [of 1 abandonment_rows 10000000 "''user1''"] c
    by (simp add: Let_def)
  moreover have "check_abandonment abandonment_rows 10000000 ''user1'' 2 = 24"
    using check_abandonment_tiers [of 2 abandonment_rows 10000000 "''user1''"] c
    by (simp add: Let_def)
  moreover have "check_abandonment ?old 10000000 ''user1'' 1 = 12
      \<and> check_abandonment ?old 10000000 ''user1'' 2 = 18"
    using check_abandonment_tiers [of 1 ?old 10000000 "''user1''"] none_old by blast
  moreover have "check_abandonment [] 10000000 ''user1'' 1 = 12
      \<and> check_abandonment [] 10000000 ''user1'' 2 = 18"
    using check_abandonment_tiers [of 1 "[]" 10000000 "''user1''"] none_empty by blast
  ultimately show ?thesis using c by simp
qed

subsection \<open>C7: the velocity signal\<close>

lemma breakdown_velocity:
  "map_of (snd (snd (log_attempt sc clk s u st p ok))) ''velocity''
     = Some (velocity_signal (login_attempts s) (t_rule clk) u)"
  by (simp add: log_attempt_breakdown scored_breakdown signal_scores_def)

text \<open>
  Claim C7. For every attempt \<^verbatim>\<open>log_attempt\<close> scores, the entry
  \<^verbatim>\<open>velocity\<close> of the breakdown is a function of the number \<open>c\<close> of the user's
  rows, in the table as it is before the attempt is written, whose timestamp is later
  than five minutes before the clock reading of \<^verbatim>\<open>calculate_risk_score\<close>: 95 if
  \<open>c > 10\<close>, else 70 if \<open>c > 5\<close>, else 40 if \<open>c > 3\<close>, else 0. A user with no
  stored row gets 0.
\<close>

theorem velocity_signal_thresholds:
  "(let c = int (length (filter (\<lambda>e. username e = u \<and> t_rule clk - 300000 < timestamp e)
                          (login_attempts s)))
    in map_of (snd (snd (log_attempt sc clk s u st p ok))) ''velocity''
         = Some (if 10 < c then 95 else if 5 < c then 70 else if 3 < c then 40 else 0))
   \<and> ((\<forall>e\<in>set (login_attempts s). username e \<noteq> u) \<longrightarrow>
        map_of (snd (snd (log_attempt sc clk s u st p ok))) ''velocity'' = Some 0)"
  by (simp add: breakdown_velocity velocity_signal_def count_since_def user_since_def Let_def
      filter_empty_conv)

text \<open>
  The spec's examples: 4 rows inside the window give 40, 6 give 70, 11 give 95, and a
  user none of whose rows is stored gets 0.
\<close>

theorem velocity_signal_thresholds_witness:
  "map_of (snd (snd (log_attempt const_scorer clock0
       (ueba_init False (replicate 4 (seed_row\<lparr>username := ''user1'', timestamp := 999000\<rparr>)))
       ''user1'' 1 default_params True))) ''velocity'' = Some 40
   \<and> map_of (snd (snd (log_attempt const_scorer clock0
       (ueba_init False (replicate 6 (seed_row\<lparr>username := ''user1'', timestamp := 999000\<rparr>)))
       ''user1'' 1 default_params True))) ''velocity'' = Some 70
   \<and> map_of (snd (snd (log_attempt const_scorer clock0
       (ueba_init False (replicate 11 (seed_row\<lparr>username := ''user1'', timestamp := 999000\<rparr>)))
       ''user1'' 1 default_params True))) ''velocity'' = Some 95
   \<and> list_all (\<lambda>e. username e \<noteq> ''user1'')
        (login_attempts (ueba_init False (replicate 11 seed_row)))
   \<and> map_of (snd (snd (log_attempt const_scorer clock0
       (ueba_init False (replicate 11 seed_row))
       ''user1'' 1 default_params True))) ''velocity'' = Some 0"
proof -
  let ?row = "seed_row\<lparr>username := ''user1'', timestamp := 999000\<rparr>"
  have s: "\<And>tbl. login_attempts (ueba_init False tbl) = tbl"
    by (simp add: ueba_init_def)
  have c: "\<And>n. int (length (filter (\<lambda>e. username e = ''user1'' \<and> t_rule clock0 - 300000 < timestamp e)
                   (replicate n ?row))) = int n"
    by (simp add: clock0_def)
  have new: "\<forall>e\<in>set (login_attempts (ueba_init False (replicate 11 seed_row))). username e \<noteq> ''user1''"
    by (simp add: s seed_row_def)
  have "map_of (snd (snd (log_attempt const_scorer clock0 (ueba_init False (replicate 4 ?row))
          ''user1'' 1 default_params True))) ''velocity'' = Some 40"
    using velocity_signal_thresholds [of "''user1''" clock0 "ueba_init False (replicate 4 ?row)"
        const_scorer 1 default_params True]
    by (simp add: s c Let_def)
  moreover
  have "map_of (snd (snd (log_attempt const_scorer clock0 (ueba_init False (replicate 6 ?row))
          ''user1'' 1 default_params True))) ''velocity'' = Some 70"
    using velocity_signal_thresholds [of "''user1''" clock0 "ueba_init False (replicate 6 ?row)"
        const_scorer 1 default_params True]
    by (simp add: s c Let_def)
  moreover
  have "map_of (snd (snd (log_attempt const_scorer clock0 (ueba_init False (replicate 11 ?row))
          ''user1'' 1 default_params True))) ''velocity'' = Some 95"
    using velocity_signal_thresholds [of "''user1''" clock0 "ueba_init False (replicate 11 ?row)"
        const_scorer 1 default_params True]
    by (simp add: s c Let_def)
  moreover
  have "map_of (snd (snd (log_attempt const_scorer clock0 (ueba_init False (replicate 11 seed_row))
          ''user1'' 1 default_params True))) ''velocity'' = Some 0"
    using velocity_signal_thresholds [of "''user1''" clock0 "ueba_init False (replicate 11 seed_row)"
        const_scorer 1 default_params True] new
    by blast
  ultimately show ?thesis using new by (simp add: list_all_iff)
qed

subsection \<open>C8: the fingerprint signal\<close>

text \<open>
  What the query for the last fingerprint returns: nothing exactly when the user has no
  row with a fingerprint, and otherwise the fingerprint of such a row that no other
  such row is later than.
\<close>

lemma newest_None: "(newest xs = None) = (xs = [])"
  by (induction xs) (auto split: option.splits)

lemma newest_Some:
  "newest xs = Some m \<Longrightarrow> m \<in> set xs \<and> (\<forall>e\<in>set xs. timestamp e \<le> timestamp m)"
proof (induction xs arbitrary: m)
  case Nil
  then show ?case by simp
next
  case (Cons x xs)
  show ?case
  proof (cases "newest xs")
    case None
    then have "xs = []" by (simp add: newest_None)
    with Cons.prems show ?thesis by simp
  next
    case (Some n)
    then have n: "n \<in> set xs \<and> (\<forall>e\<in>set xs. timestamp e \<le> timestamp n)"
      by (rule Cons.IH)
    show ?thesis
    proof (cases "timestamp x < timestamp n")
      case True
      with Some Cons.prems have "m = n" by simp
      with n True show ?thesis by auto
    next
      case False
      with Some Cons.prems have "m = x" by simp
      with n False show ?thesis by fastforce
    qed
  qed
qed

lemma last_fingerprint_None:
  "(last_fingerprint tbl u = None) = (\<not> (\<exists>e\<in>set tbl. username e = u \<and> fingerprint e \<noteq> []))"
  by (auto simp add: last_fingerprint_def newest_None filter_empty_conv)

lemma last_fingerprint_Some:
  assumes "last_fingerprint tbl u = Some fp"
  shows "\<exists>m\<in>set tbl. username m = u \<and> fingerprint m = fp \<and> fp \<noteq> []
           \<and> (\<forall>e\<in>set tbl. username e = u \<and> fingerprint e \<noteq> [] \<longrightarrow> timestamp e \<le> timestamp m)"
proof -
  let ?rows = "filter (\<lambda>e. username e = u \<and> fingerprint e \<noteq> []) tbl"
  from assms obtain m where m: "newest ?rows = Some m" and fp: "fingerprint m = fp"
    by (auto simp add: last_fingerprint_def)
  from newest_Some [OF m]
  have "m \<in> set ?rows" and "\<forall>e\<in>set ?rows. timestamp e \<le> timestamp m" by simp_all
  with fp show ?thesis by auto
qed

lemma breakdown_fingerprint_change:
  "map_of (snd (snd (log_attempt sc clk s u st p ok))) ''fingerprint_change''
     = Some (fingerprint_change_signal (login_attempts s) u p)"
  by (simp add: log_attempt_breakdown scored_breakdown signal_scores_def)

lemma last_fingerprint_one_row:
  "last_fingerprint [seed_row\<lparr>username := ''user1'', fingerprint := ''FP_A''\<rparr>] ''user1''
     = Some ''FP_A''"
  by (simp add: last_fingerprint_def)

text \<open>
  Claim C8, as amended. For every attempt \<^verbatim>\<open>log_attempt\<close> scores, the entry
  \<^verbatim>\<open>fingerprint_change\<close> of the breakdown is 60 if the attempt's fingerprint is
  present, is not the empty string, and differs from the user's most recent stored
  fingerprint that is not empty; it is 0 if the two are the same, if no such fingerprint
  is stored, or if the attempt's fingerprint is missing or empty. The most recent stored
  fingerprint is that of a row of the user, with a fingerprint, of the greatest
  timestamp among such rows.
\<close>

theorem fingerprint_change_needs_current_fingerprint:
  "map_of (snd (snd (log_attempt sc clk s u st p ok))) ''fingerprint_change''
     = Some (case last_fingerprint (login_attempts s) u of
               None \<Rightarrow> 0
             | Some last_fp \<Rightarrow>
                 if param_fingerprint p = None \<or> param_fingerprint p = Some [] then 0
                 else if param_fingerprint p \<noteq> Some last_fp then 60
                 else 0)
   \<and> ((last_fingerprint (login_attempts s) u = None)
        = (\<not> (\<exists>e\<in>set (login_attempts s). username e = u \<and> fingerprint e \<noteq> [])))
   \<and> (\<forall>fp. last_fingerprint (login_attempts s) u = Some fp \<longrightarrow>
        (\<exists>m\<in>set (login_attempts s). username m = u \<and> fingerprint m = fp \<and> fp \<noteq> []
           \<and> (\<forall>e\<in>set (login_attempts s).
                 username e = u \<and> fingerprint e \<noteq> [] \<longrightarrow> timestamp e \<le> timestamp m)))"
proof -
  have "fingerprint_change_signal (login_attempts s) u p
      = (case last_fingerprint (login_attempts s) u of
               None \<Rightarrow> 0
             | Some last_fp \<Rightarrow>
                 if param_fingerprint p = None \<or> param_fingerprint p = Some [] then 0
                 else if param_fingerprint p \<noteq> Some last_fp then 60
                 else 0)"
    by (auto simp add: fingerprint_change_signal_def split: option.splits)
  then show ?thesis
    using last_fingerprint_None [of "login_attempts s" u]
      last_fingerprint_Some [of "login_attempts s" u]
    by (simp add: breakdown_fingerprint_change)
qed

text \<open>
  With \<open>FP_A\<close> stored for the user, an attempt with \<open>FP_DEFAULT\<close> scores 60 and an
  attempt with \<open>FP_A\<close> scores 0.
\<close>

theorem fingerprint_change_needs_current_fingerprint_witness:
  "last_fingerprint
       (login_attempts (ueba_init False [seed_row\<lparr>username := ''user1'', fingerprint := ''FP_A''\<rparr>]))
       ''user1'' = Some ''FP_A''
   \<and> map_of (snd (snd (log_attempt const_scorer clock0
        (ueba_init False [seed_row\<lparr>username := ''user1'', fingerprint := ''FP_A''\<rparr>])
        ''user1'' 1 default_params True))) ''fingerprint_change'' = Some 60
   \<and> map_of (snd (snd (log_attempt const_scorer clock0
        (ueba_init False [seed_row\<lparr>username := ''user1'', fingerprint := ''FP_A''\<rparr>])
        ''user1'' 1 (default_params\<lparr>param_fingerprint := Some ''FP_A''\<rparr>) True)))
        ''fingerprint_change'' = Some 0"
proof -
  let ?s = "ueba_init False [seed_row\<lparr>username := ''user1'', fingerprint := ''FP_A''\<rparr>]"
  have s: "login_attempts ?s = [seed_row\<lparr>username := ''user1'', fingerprint := ''FP_A''\<rparr>]"
    by (simp add: ueba_init_def)
  have l: "last_fingerprint (login_attempts ?s) ''user1'' = Some ''FP_A''"
    by (simp add: s last_fingerprint_one_row)
  have "map_of (snd (snd (log_attempt const_scorer clock0 ?s ''user1'' 1 default_params True)))
          ''fingerprint_change'' = Some 60"
    using fingerprint_change_needs_current_fingerprint
      [of const_scorer clock0 ?s "''user1''" 1 default_params True]
    by (simp add: l default_params_def)
  moreover
  have "map_of (snd (snd (log_attempt const_scorer clock0 ?s ''user1'' 1
            (default_params\<lparr>param_fingerprint := Some ''FP_A''\<rparr>) True)))
          ''fingerprint_change'' = Some 0"
    using fingerprint_change_needs_current_fingerprint
      [of const_scorer clock0 ?s "''user1''" 1
          "default_params\<lparr>param_fingerprint := Some ''FP_A''\<rparr>" True]
    by (simp add: l)
  ultimately show ?thesis using l by simp
qed

text \<open>
  Claim C8 as the spec states it (60 whenever the most recent stored fingerprint differs
  from the attempt's) is false for an attempt whose fingerprint is the empty string:
  with \<open>FP_A\<close> stored, the attempt's fingerprint, stored as the empty string, differs
  from it, and the signal is 0. The guard \<^verbatim>\<open>and params.get('fingerprint')\<close> skips
  the comparison.
\<close>

theorem empty_fingerprint_differs_but_scores_0:
  "last_fingerprint
       (login_attempts (ueba_init False [seed_row\<lparr>username := ''user1'', fingerprint := ''FP_A''\<rparr>]))
       ''user1'' = Some ''FP_A''
   \<and> fingerprint (last (login_attempts (fst (log_attempt const_scorer clock0
        (ueba_init False [seed_row\<lparr>username := ''user1'', fingerprint := ''FP_A''\<rparr>])
        ''user1'' 1 (default_params\<lparr>param_fingerprint := Some []\<rparr>) True)))) = []
   \<and> ''FP_A'' \<noteq> ([] :: string)
   \<and> map_of (snd (snd (log_attempt const_scorer clock0
        (ueba_init False [seed_row\<lparr>username := ''user1'', fingerprint := ''FP_A''\<rparr>])
        ''user1'' 1 (default_params\<lparr>param_fingerprint := Some []\<rparr>) True)))
        ''fingerprint_change'' = Some 0"
proof -
  let ?s = "ueba_init False [seed_row\<lparr>username := ''user1'', fingerprint := ''FP_A''\<rparr>]"
  have s: "login_attempts ?s = [seed_row\<lparr>username := ''user1'', fingerprint := ''FP_A''\<rparr>]"
    by (simp add: ueba_init_def)
  have l: "last_fingerprint (login_attempts ?s) ''user1'' = Some ''FP_A''"
    by (simp add: s last_fingerprint_one_row)
  have "fingerprint_change_signal (login_attempts ?s) ''user1''
          (default_params\<lparr>param_fingerprint := Some []\<rparr>) = 0"
    by (simp add: fingerprint_change_signal_def l)
  then show ?thesis
    using l
    by (simp add: breakdown_fingerprint_change log_attempt_login_attempts new_row_fields
        dict_get_def)
qed

subsection \<open>C9: training on fewer than ten samples\<close>

lemma log_attempt_model_too_few:
  assumes "length (filter (\<lambda>e. 0 < latency e)
              (login_attempts (fst (log_attempt sc clk s u st p ok)))) < 10"
  shows "ml_model (fst (log_attempt sc clk s u st p ok)) = ml_model s"
proof -
  let ?s1 = "s\<lparr>login_attempts :=
                 login_attempts s
                   @ [new_row (login_attempts s) (t_insert clk) u st p ok
                        (fst (scored sc clk s u p))]\<rparr>"
  let ?s2 = "?s1\<lparr>stdout := stdout ?s1 @ [Retraining]\<rparr>"
  have few: "length (filter (\<lambda>e. 0 < latency e) (login_attempts ?s2)) < 10"
    using assms by (simp add: log_attempt_login_attempts)
  have "fst (log_attempt sc clk s u st p ok) = train_ml_model ?s2
        \<or> fst (log_attempt sc clk s u st p ok) = ?s1"
    by (simp add: log_attempt_def Let_def split_beta)
  then show ?thesis
    using train_ml_model_too_few [OF few] by auto
qed

text \<open>
  Claim C9. Whenever fewer than 10 stored rows have a latency above 0, a retrain
  changes neither the model (present or absent) nor the table: when
  \<^verbatim>\<open>train_ml_model\<close> is called, when the constructor calls it (the engine then
  starts without a model), and when \<^verbatim>\<open>log_attempt\<close> triggers it, in which case
  the caller still gets the score and the breakdown computed for the attempt. The only
  trace is the printed line.
\<close>

theorem too_few_samples_keep_model:
  "(length (filter (\<lambda>e. 0 < latency e) (login_attempts s)) < 10 \<longrightarrow>
      ml_model (train_ml_model s) = ml_model s
      \<and> login_attempts (train_ml_model s) = login_attempts s
      \<and> ml_available (train_ml_model s) = ml_available s)
   \<and> (length (filter (\<lambda>e. 0 < latency e) tbl) < 10 \<longrightarrow>
      ml_model (ueba_init avail tbl) = None
      \<and> login_attempts (ueba_init avail tbl) = tbl)
   \<and> (length (filter (\<lambda>e. 0 < latency e)
          (login_attempts (fst (log_attempt sc clk s u st p ok)))) < 10 \<longrightarrow>
      ml_model (fst (log_attempt sc clk s u st p ok)) = ml_model s
      \<and> snd (log_attempt sc clk s u st p ok) = scored sc clk s u p)"
proof -
  have init: "length (filter (\<lambda>e. 0 < latency e) tbl) < 10 \<Longrightarrow>
      ml_model (ueba_init avail tbl) = None \<and> login_attempts (ueba_init avail tbl) = tbl"
    by (simp add: ueba_init_def Let_def train_ml_model_too_few train_ml_model_login_attempts)
  have ret: "snd (log_attempt sc clk s u st p ok) = scored sc clk s u p"
    by (simp add: log_attempt_def Let_def split_beta)
  show ?thesis
    using init ret
    by (simp add: train_ml_model_too_few train_ml_model_login_attempts
        train_ml_model_ml_available log_attempt_model_too_few)
qed

text \<open>
  On a run: the engine starts on 49 rows of latency 0. The 50th write, itself without a
  latency, triggers a retrain, which prints that there is not enough data and leaves the
  engine without a model.
\<close>

theorem too_few_samples_keep_model_witness:
  "length (filter (\<lambda>e. 0 < latency e)
      (login_attempts (ueba_init True (replicate 49 (seed_row\<lparr>latency := 0\<rparr>))))) < 10
   \<and> length (login_attempts (fst (log_attempt const_scorer clock0
        (ueba_init True (replicate 49 (seed_row\<lparr>latency := 0\<rparr>)))
        ''user1'' 1 no_params True))) = 50
   \<and> ml_model (fst (log_attempt const_scorer clock0
        (ueba_init True (replicate 49 (seed_row\<lparr>latency := 0\<rparr>)))
        ''user1'' 1 no_params True)) = None
   \<and> ml_model (train_ml_model (ueba_init True (replicate 49 (seed_row\<lparr>latency := 0\<rparr>)))) = None
   \<and> stdout (fst (log_attempt const_scorer clock0
        (ueba_init True (replicate 49 (seed_row\<lparr>latency := 0\<rparr>)))
        ''user1'' 1 no_params True)) = [NotEnoughData, Retraining, NotEnoughData]"
proof -
  let ?tbl = "replicate 49 (seed_row\<lparr>latency := 0\<rparr>)"
  let ?s = "ueba_init True ?tbl"
  let ?r = "log_attempt const_scorer clock0 ?s ''user1'' 1 no_params True"
  have few: "length (filter (\<lambda>e. 0 < latency e) ?tbl) < 10" by simp
  have tbl: "login_attempts ?s = ?tbl" and none: "ml_model ?s = None"
    using too_few_samples_keep_model [of _ ?tbl True] few by simp_all
  have few_s: "length (filter (\<lambda>e. 0 < latency e) (login_attempts ?s)) < 10"
    by (simp add: tbl)
  have few_r: "length (filter (\<lambda>e. 0 < latency e) (login_attempts (fst ?r))) < 10"
    by (simp add: log_attempt_login_attempts tbl new_row_fields no_params_def dict_get_def)
  have "ml_model (fst ?r) = ml_model ?s"
    using too_few_samples_keep_model [of ?s _ _ const_scorer clock0 "''user1''" 1 no_params True]
      few_r by simp
  moreover have "ml_model (train_ml_model ?s) = ml_model ?s"
    using too_few_samples_keep_model [of ?s] few_s by simp
  moreover have "length (login_attempts (fst ?r)) = 50"
    by (simp add: log_attempt_login_attempts tbl)
  moreover have "stdout (fst ?r) = [NotEnoughData, Retraining, NotEnoughData]"
    by (simp add: log_attempt_def Let_def split_beta ueba_init_def train_ml_model_def
        training_data_def new_row_def no_params_def dict_get_def)
  ultimately show ?thesis using few_s none by simp
qed

subsection \<open>C10: an attempt without a latency\<close>

lemma breakdown_latency_anomaly:
  "map_of (snd (snd (log_attempt sc clk s u st p ok))) ''latency_anomaly''
     = Some (latency_anomaly_signal (login_attempts s) u p)"
  by (simp add: log_attempt_breakdown scored_breakdown signal_scores_def)

lemma latency_anomaly_signal_missing:
  "param_latency p = None \<Longrightarrow>
   latency_anomaly_signal tbl u p = latency_anomaly_signal tbl u (p\<lparr>param_latency := Some 150\<rparr>)
   \<and> latency_anomaly_signal tbl u p \<noteq> 70"
  by (simp add: latency_anomaly_signal_def dict_get_def Let_def)

lemma positive_latencies_skip:
  "latency r = 0 \<Longrightarrow> positive_latencies (tbl @ [r] @ later) v = positive_latencies (tbl @ later) v"
  by (simp add: positive_latencies_def)

text \<open>
  Claim C10. For every attempt whose \<^verbatim>\<open>params\<close> has no latency, the entry
  \<^verbatim>\<open>latency_anomaly\<close> of the breakdown is what a current latency of 150 gives, so
  it is never the 70 of a latency below 50; the row is stored with latency 0; and that
  row is left out of every later average of latencies and of every later training set,
  whatever rows \<open>later\<close> follow it: the average of any user \<open>v\<close> is the average
  over the other rows, and the rows of the training set come from the other rows only.
\<close>

theorem missing_latency_scored_as_150_stored_as_0:
  assumes "param_latency p = None"
  shows "(let r = log_attempt sc clk s u st p ok;
              tbl' = login_attempts (fst r)
          in map_of (snd (snd r)) ''latency_anomaly''
               = Some (latency_anomaly_signal (login_attempts s) u (p\<lparr>param_latency := Some 150\<rparr>))
             \<and> map_of (snd (snd r)) ''latency_anomaly'' \<noteq> Some 70
             \<and> latency (last tbl') = 0
             \<and> avg_latency_query (tbl' @ later) v = avg_latency_query (login_attempts s @ later) v
             \<and> training_data (tbl' @ later)
                 = map (training_row (tbl' @ later))
                     (filter (\<lambda>e. 0 < latency e) (login_attempts s @ later)))"
proof -
  let ?row = "new_row (login_attempts s) (t_insert clk) u st p ok (fst (scored sc clk s u p))"
  have z: "latency ?row = 0"
    using assms by (simp add: new_row_fields dict_get_def)
  have avg: "avg_latency_query ((login_attempts s @ [?row]) @ later) v
               = avg_latency_query (login_attempts s @ later) v"
    using positive_latencies_skip [OF z, of "login_attempts s" later v]
    by (simp add: avg_latency_query_def)
  have tr: "training_data ((login_attempts s @ [?row]) @ later)
              = map (training_row ((login_attempts s @ [?row]) @ later))
                  (filter (\<lambda>e. 0 < latency e) (login_attempts s @ later))"
    using z by (simp add: training_data_def)
  show ?thesis
    using latency_anomaly_signal_missing [OF assms, of "login_attempts s" u] z avg tr
    by (simp add: Let_def breakdown_latency_anomaly log_attempt_login_attempts)
qed

text \<open>
  On a fresh engine: the first attempt, with no parameter at all, has a latency signal
  of 0, is stored with latency 0, and leaves both the user's average and the training
  set empty.
\<close>

theorem missing_latency_scored_as_150_stored_as_0_witness:
  "param_latency no_params = None
   \<and> map_of (snd (snd (log_attempt const_scorer clock0 (ueba_init True [])
        ''user1'' 1 no_params True))) ''latency_anomaly'' = Some 0
   \<and> latency (last (login_attempts (fst (log_attempt const_scorer clock0 (ueba_init True [])
        ''user1'' 1 no_params True)))) = 0
   \<and> avg_latency_query (login_attempts (fst (log_attempt const_scorer clock0 (ueba_init True [])
        ''user1'' 1 no_params True))) ''user1'' = None
   \<and> training_data (login_attempts (fst (log_attempt const_scorer clock0 (ueba_init True [])
        ''user1'' 1 no_params True))) = []"
proof -
  have h: "param_latency no_params = None" by (simp add: no_params_def)
  have s: "login_attempts (ueba_init True []) = []" by (simp add: ueba_init_no_rows)
  have sig: "latency_anomaly_signal [] ''user1'' (no_params\<lparr>param_latency := Some 150\<rparr>) = 0"
    by (simp add: latency_anomaly_signal_def avg_latency_query_def positive_latencies_def
        dict_get_def)
  have e: "avg_latency_query [] ''user1'' = None"
    by (simp add: avg_latency_query_def positive_latencies_def)
  show ?thesis
    using missing_latency_scored_as_150_stored_as_0
      [OF h, of const_scorer clock0 "ueba_init True []" "''user1''" 1 True "[]" "''user1''"]
    by (simp add: Let_def h s sig e)
qed

end
